theory Spec2Isabelle
  imports Complex_Main "HOL-Library.Char_ord" "HOL-Library.List_Lexorder"
begin

section \<open>Python values: errors, dictionaries, rounding\<close>

text \<open>
  Python floats are idealised as the real numbers: every sum, product and quotient below is
  exact.  Calendar dates are day ordinals and timestamps are ticks, both integers.  An
  exception of the source is a value \<open>Inl e\<close> of a sum type.
\<close>

datatype error = ZeroDivisionError | ValueError

text \<open>
  A Python \<open>dict\<close> is an association list in insertion order with pairwise different keys:
  assigning to an existing key replaces the value in place, assigning to a new key appends.
\<close>

type_synonym ('k, 'v) dict = "('k \<times> 'v) list"

fun dict_set :: "('k, 'v) dict \<Rightarrow> 'k \<Rightarrow> 'v \<Rightarrow> ('k, 'v) dict" where
  "dict_set [] k v = [(k, v)]"
| "dict_set ((k', v') # d) k v =
     (if k' = k then (k, v) # d else (k', v') # dict_set d k v)"

definition dict_get :: "('k, 'v) dict \<Rightarrow> 'k \<Rightarrow> 'v \<Rightarrow> 'v" where
  \<comment> \<open>\<open>d.get(k, dflt)\<close>\<close>
  "dict_get d k dflt = (case map_of d k of None \<Rightarrow> dflt | Some v \<Rightarrow> v)"

definition py_div :: "real \<Rightarrow> real \<Rightarrow> error + real" where
  \<comment> \<open>float division raises on a zero divisor\<close>
  "py_div a b = (if b = 0 then Inl ZeroDivisionError else Inr (a / b))"

definition or_one :: "real \<Rightarrow> real" where
  \<comment> \<open>\<open>x or 1.0\<close>: a zero float is falsy\<close>
  "or_one x = (if x = 0 then 1 else x)"

definition truthy :: "string option \<Rightarrow> bool" where
  \<comment> \<open>\<open>if s:\<close> for an optional string: neither \<open>None\<close> nor empty\<close>
  "truthy s = (case s of None \<Rightarrow> False | Some v \<Rightarrow> v \<noteq> [])"

definition py_round :: "real \<Rightarrow> nat \<Rightarrow> real" where
  \<comment> \<open>\<open>round(x, nd)\<close>: to the nearest multiple of \<open>10^-nd\<close>, a tie to the even one\<close>
  "py_round x nd =
     (let y = x * 10 ^ nd; f = \<lfloor>y\<rfloor>; d = y - of_int f
      in (if d < 1 / 2 then of_int f
          else if 1 / 2 < d then of_int (f + 1)
          else if even f then of_int f else of_int (f + 1)) / 10 ^ nd)"

fun normalise :: "real \<Rightarrow> (string, real) dict \<Rightarrow> error + (string, real) dict" where
  \<comment> \<open>the comprehension \<open>{ch: v / total for ch, v in d.items()}\<close>\<close>
  "normalise denom [] = Inr []"
| "normalise denom ((ch, v) # d) =
     (case py_div v denom of
        Inl e \<Rightarrow> Inl e
      | Inr s \<Rightarrow> (case normalise denom d of
                    Inl e \<Rightarrow> Inl e
                  | Inr d' \<Rightarrow> Inr ((ch, s) # d')))"

section \<open>The tables of the store (packages/shared/src/models.py)\<close>

text \<open>Each record keeps the columns that the attribution and MMM engine reads or writes.\<close>

record ad_row =
  ad_date :: int
  ad_spend :: real

record order_row =
  order_id :: string
  order_date :: int
  revenue :: real
  net_revenue :: "real option"
  click_id :: "string option"

record ad_click =
  ac_click_id :: string
  ac_date :: int
  ac_campaign_id :: string
  ac_campaign_name :: "string option"
  ac_channel :: string

record attribution_event =
  ev_order_id :: string
  ev_channel :: string
  ev_campaign_id :: "string option"
  ev_cost_center :: "string option"
  ev_weight :: real
  ev_allocated_revenue :: real
  ev_event_date :: int
  ev_run_id :: string

record mmm_results_row =
  mr_run_id :: string
  mr_created_at :: int
  mr_channel :: string
  mr_coefficient :: real
  mr_goodness_of_fit_r2 :: "real option"
  mr_model_version :: "string option"

text \<open>
  The session is the state that every engine function threads: \<open>session.add\<close> appends a
  row to its table, and every run commits what it added before it returns.
\<close>

record session =
  raw_meta_ads :: "ad_row list"
  raw_google_ads :: "ad_row list"
  raw_bing_ads :: "ad_row list"
  raw_pinterest_ads :: "ad_row list"
  raw_shopify_orders :: "order_row list"
  raw_woocommerce_orders :: "order_row list"
  raw_ad_clicks :: "ad_click list"
  attribution_events :: "attribution_event list"
  mmm_results :: "mmm_results_row list"

definition in_window :: "int \<Rightarrow> int \<Rightarrow> int \<Rightarrow> bool" where
  "in_window start_date end_date d = (start_date \<le> d \<and> d \<le> end_date)"

section \<open>Attribution versus MMM report (packages/metrics/src/attribution_mmm_report.py)\<close>

definition INSTABILITY_THRESHOLD :: real where
  "INSTABILITY_THRESHOLD = 0.25"

definition DEFAULT_ADSTOCK_HALF_LIFE :: real where
  "DEFAULT_ADSTOCK_HALF_LIFE = 7"

definition add_revenue :: "(string, real) dict \<Rightarrow> attribution_event \<Rightarrow> (string, real) dict" where
  \<comment> \<open>\<open>by_ch[r.channel] = by_ch.get(r.channel, 0.0) + r.allocated_revenue\<close>\<close>
  "add_revenue by_ch r =
     dict_set by_ch (ev_channel r) (dict_get by_ch (ev_channel r) 0 + ev_allocated_revenue r)"

definition attribution_revenue_by_channel ::
  "session \<Rightarrow> int \<Rightarrow> int \<Rightarrow> string option \<Rightarrow> (string, real) dict" where
  "attribution_revenue_by_channel s start_date end_date run_id =
     (let rows = filter (\<lambda>r. in_window start_date end_date (ev_event_date r)
                              \<and> (truthy run_id \<longrightarrow> Some (ev_run_id r) = run_id))
                        (attribution_events s)
      in foldl add_revenue [] rows)"

definition add_spend :: "string \<Rightarrow> (string, real) dict \<Rightarrow> ad_row \<Rightarrow> (string, real) dict" where
  "add_spend ch by_ch r = dict_set by_ch ch (dict_get by_ch ch 0 + ad_spend r)"

definition ads_in_window :: "int \<Rightarrow> int \<Rightarrow> ad_row list \<Rightarrow> ad_row list" where
  "ads_in_window start_date end_date rows =
     filter (\<lambda>r. in_window start_date end_date (ad_date r)) rows"

definition spend_by_channel :: "session \<Rightarrow> int \<Rightarrow> int \<Rightarrow> (string, real) dict" where
  "spend_by_channel s start_date end_date =
     (let by_ch = foldl (add_spend ''meta'') []
                    (ads_in_window start_date end_date (raw_meta_ads s));
          by_ch = foldl (add_spend ''google'') by_ch
                    (ads_in_window start_date end_date (raw_google_ads s));
          by_ch = foldl (add_spend ''bing'') by_ch
                    (ads_in_window start_date end_date (raw_bing_ads s))
      in foldl (add_spend ''pinterest'') by_ch
           (ads_in_window start_date end_date (raw_pinterest_ads s)))"

definition mmm_rows :: "session \<Rightarrow> string option \<Rightarrow> mmm_results_row list" where
  \<comment> \<open>\<open>select(MMMResults).order_by(created_at.desc())\<close>, restricted to the run when one is given\<close>
  "mmm_rows s mmm_run_id =
     filter (\<lambda>r. truthy mmm_run_id \<longrightarrow> Some (mr_run_id r) = mmm_run_id)
       (sort_key (\<lambda>r. - mr_created_at r) (mmm_results s))"

definition keep_first :: "(string, real) dict \<Rightarrow> mmm_results_row \<Rightarrow> (string, real) dict" where
  \<comment> \<open>\<open>if r.channel not in by_channel: by_channel[r.channel] = r.coefficient\<close>\<close>
  "keep_first by_channel r =
     (if mr_channel r \<in> set (map fst by_channel) then by_channel
      else dict_set by_channel (mr_channel r) (mr_coefficient r))"

definition first_per_channel :: "mmm_results_row list \<Rightarrow> (string, real) dict" where
  "first_per_channel rows = foldl keep_first [] rows"

definition add_contribution ::
  "(real \<Rightarrow> real \<Rightarrow> real) \<Rightarrow> (string, real) dict \<Rightarrow> real \<Rightarrow> (string, real) dict
     \<Rightarrow> string \<times> real \<Rightarrow> (string, real) dict" where
  \<comment> \<open>\<open>contribution[ch] = coef * _response_single_channel(spend, half_life)\<close>; the response
      curve of packages/mmm/src/optimizer.py is the parameter \<open>resp\<close>\<close>
  "add_contribution resp spend half_life contribution p =
     dict_set contribution (fst p) (snd p * resp (dict_get spend (fst p) 0) half_life)"

definition contribution_of ::
  "(real \<Rightarrow> real \<Rightarrow> real) \<Rightarrow> (string, real) dict \<Rightarrow> real \<Rightarrow> (string, real) dict
     \<Rightarrow> (string, real) dict" where
  "contribution_of resp spend half_life by_channel =
     foldl (add_contribution resp spend half_life) [] by_channel"

definition mmm_contribution_share ::
  "(real \<Rightarrow> real \<Rightarrow> real) \<Rightarrow> session \<Rightarrow> (string, real) dict \<Rightarrow> string option \<Rightarrow> real
     \<Rightarrow> error + ((string, real) dict \<times> (string, real) dict)" where
  "mmm_contribution_share resp s spend mmm_run_id half_life =
     (let rows = mmm_rows s mmm_run_id
      in if rows = [] then Inr ([], [])
         else
           let contribution = contribution_of resp spend half_life (first_per_channel rows);
               denom = or_one (sum_list (map snd contribution))
           in (case normalise denom contribution of
                 Inl e \<Rightarrow> Inl e
               | Inr share \<Rightarrow> Inr (contribution, share)))"

record report =
  channels :: "string list"
  attribution_share :: "(string, real) dict"
  mmm_share :: "(string, real) dict"
  disagreement_score :: real
  instability_flagged :: bool

definition report_channels :: "(string, real) dict \<Rightarrow> (string, real) dict \<Rightarrow> string list" where
  \<comment> \<open>\<open>sorted(set(list(a.keys()) + list(m.keys())))\<close>\<close>
  "report_channels a m = sort (remdups (map fst a @ map fst m))"

definition disagreement :: "(string, real) dict \<Rightarrow> (string, real) dict \<Rightarrow> real" where
  \<comment> \<open>the loop \<open>for ch in channels: disagreement += abs(a - m)\<close>\<close>
  "disagreement a m =
     foldl (\<lambda>acc ch. acc + \<bar>dict_get a ch 0 - dict_get m ch 0\<bar>) 0 (report_channels a m)"

definition report_of_shares ::
  "(string, real) dict \<Rightarrow> (string, real) dict \<Rightarrow> real \<Rightarrow> report" where
  \<comment> \<open>the body of \<open>build_attribution_mmm_report\<close> once both share maps are known\<close>
  "report_of_shares a m instability_threshold =
     (let score = disagreement a m;
          flagged = (instability_threshold < score)
      in \<lparr>channels = report_channels a m,
          attribution_share = a,
          mmm_share = m,
          disagreement_score = py_round score 4,
          instability_flagged = flagged\<rparr>)"

definition build_attribution_mmm_report ::
  "(real \<Rightarrow> real \<Rightarrow> real) \<Rightarrow> session \<Rightarrow> int \<Rightarrow> int \<Rightarrow> string option \<Rightarrow> string option \<Rightarrow> real
     \<Rightarrow> error + report" where
  "build_attribution_mmm_report resp s start_date end_date attribution_run_id mmm_run_id
       instability_threshold =
     (let attr_rev = attribution_revenue_by_channel s start_date end_date attribution_run_id;
          total_attr = or_one (sum_list (map snd attr_rev))
      in case normalise total_attr attr_rev of
           Inl e \<Rightarrow> Inl e
         | Inr a_share \<Rightarrow>
             (let spend_by_ch = spend_by_channel s start_date end_date
              in case mmm_contribution_share resp s spend_by_ch mmm_run_id
                        DEFAULT_ADSTOCK_HALF_LIFE of
                   Inl e \<Rightarrow> Inl e
                 | Inr (_, m_share) \<Rightarrow>
                     Inr (report_of_shares a_share m_share instability_threshold)))"

text \<open>
  The reconciliation score in the words of the specification: the L1 distance of the two
  share maps over the union of their channels, a channel missing from a map counting as 0.
\<close>

definition share_or_zero :: "(string, real) dict \<Rightarrow> string \<Rightarrow> real" where
  "share_or_zero d ch = (case map_of d ch of None \<Rightarrow> 0 | Some v \<Rightarrow> v)"

definition l1_disagreement :: "(string, real) dict \<Rightarrow> (string, real) dict \<Rightarrow> real" where
  "l1_disagreement a m =
     (\<Sum>ch \<in> set (map fst a) \<union> set (map fst m). \<bar>share_or_zero a ch - share_or_zero m ch\<bar>)"

section \<open>Example stores\<close>

text \<open>
  Concrete inputs on which the theorems below are instantiated.  \<open>log_response\<close> stands in
  for the response curve, which is a parameter of the report: a curve of the \<open>log(1 + x)\<close>
  family.
\<close>

definition empty_session :: session where
  "empty_session = \<lparr>raw_meta_ads = [], raw_google_ads = [], raw_bing_ads = [],
     raw_pinterest_ads = [], raw_shopify_orders = [], raw_woocommerce_orders = [],
     raw_ad_clicks = [], attribution_events = [], mmm_results = []\<rparr>"

definition log_response :: "real \<Rightarrow> real \<Rightarrow> real" where
  "log_response spend half_life = ln (1 + spend)"

definition mixed_runs_session :: session where
  "mixed_runs_session = empty_session\<lparr>
     raw_meta_ads := [\<lparr>ad_date = 1, ad_spend = 100\<rparr>],
     raw_google_ads := [\<lparr>ad_date = 1, ad_spend = 100\<rparr>],
     mmm_results :=
       [\<lparr>mr_run_id = ''run-A'', mr_created_at = 1, mr_channel = ''meta'', mr_coefficient = 2,
          mr_goodness_of_fit_r2 = Some 0.5, mr_model_version = None\<rparr>,
        \<lparr>mr_run_id = ''run-A'', mr_created_at = 1, mr_channel = ''google'', mr_coefficient = 1,
          mr_goodness_of_fit_r2 = Some 0.5, mr_model_version = None\<rparr>,
        \<lparr>mr_run_id = ''run-B'', mr_created_at = 2, mr_channel = ''google'', mr_coefficient = 5,
          mr_goodness_of_fit_r2 = Some 0.5, mr_model_version = None\<rparr>]\<rparr>"

definition cancelling_session :: session where
  "cancelling_session = empty_session\<lparr>
     raw_meta_ads := [\<lparr>ad_date = 1, ad_spend = 100\<rparr>],
     raw_google_ads := [\<lparr>ad_date = 1, ad_spend = 100\<rparr>],
     mmm_results :=
       [\<lparr>mr_run_id = ''run-A'', mr_created_at = 1, mr_channel = ''meta'', mr_coefficient = 2,
          mr_goodness_of_fit_r2 = Some 0.5, mr_model_version = None\<rparr>,
        \<lparr>mr_run_id = ''run-A'', mr_created_at = 1, mr_channel = ''google'', mr_coefficient = - 2,
          mr_goodness_of_fit_r2 = Some 0.5, mr_model_version = None\<rparr>]\<rparr>"

definition scenario_session :: session where
  "scenario_session = empty_session\<lparr>
     attribution_events :=
       [\<lparr>ev_order_id = ''o1'', ev_channel = ''meta'', ev_campaign_id = None, ev_cost_center = None,
          ev_weight = 0.6, ev_allocated_revenue = 60, ev_event_date = 1, ev_run_id = ''run-A''\<rparr>,
        \<lparr>ev_order_id = ''o1'', ev_channel = ''google'', ev_campaign_id = None, ev_cost_center = None,
          ev_weight = 0.4, ev_allocated_revenue = 40, ev_event_date = 1, ev_run_id = ''run-A''\<rparr>],
     mmm_results :=
       [\<lparr>mr_run_id = ''run-A'', mr_created_at = 1, mr_channel = ''meta'', mr_coefficient = 0,
          mr_goodness_of_fit_r2 = None, mr_model_version = None\<rparr>,
        \<lparr>mr_run_id = ''run-A'', mr_created_at = 1, mr_channel = ''google'', mr_coefficient = 0,
          mr_goodness_of_fit_r2 = None, mr_model_version = None\<rparr>]\<rparr>"

definition zero_total_session :: session where
  "zero_total_session = empty_session\<lparr>
     attribution_events :=
       [\<lparr>ev_order_id = ''o1'', ev_channel = ''meta'', ev_campaign_id = None, ev_cost_center = None,
          ev_weight = 0.5, ev_allocated_revenue = 0, ev_event_date = 1, ev_run_id = ''run-A''\<rparr>,
        \<lparr>ev_order_id = ''o1'', ev_channel = ''google'', ev_campaign_id = None, ev_cost_center = None,
          ev_weight = 0.5, ev_allocated_revenue = 0, ev_event_date = 1, ev_run_id = ''run-A''\<rparr>],
     mmm_results :=
       [\<lparr>mr_run_id = ''run-A'', mr_created_at = 1, mr_channel = ''meta'', mr_coefficient = 0,
          mr_goodness_of_fit_r2 = None, mr_model_version = None\<rparr>,
        \<lparr>mr_run_id = ''run-A'', mr_created_at = 1, mr_channel = ''google'', mr_coefficient = 0,
          mr_goodness_of_fit_r2 = None, mr_model_version = None\<rparr>]\<rparr>"

section \<open>Click-ID attribution (packages/attribution/src/click_id_attribution.py)\<close>

definition is_space :: "char \<Rightarrow> bool" where
  \<comment> \<open>the characters that \<open>str.strip()\<close> removes, a character being a code point below 256:
      tab to carriage return, the four separators, the blank, next line and the no-break
      space\<close>
  "is_space c = (c \<in> set [CHR 0x09, CHR 0x0A, CHR 0x0B, CHR 0x0C, CHR 0x0D,
                           CHR 0x1C, CHR 0x1D, CHR 0x1E, CHR 0x1F, CHR 0x20,
                           CHR 0x85, CHR 0xA0])"

definition strip :: "string \<Rightarrow> string" where
  "strip s = rev (dropWhile is_space (rev (dropWhile is_space s)))"

definition order_revenue :: "order_row \<Rightarrow> real" where
  \<comment> \<open>\<open>float(o.net_revenue if o.net_revenue is not None else o.revenue)\<close>\<close>
  "order_revenue order = (case net_revenue order of None \<Rightarrow> revenue order | Some n \<Rightarrow> n)"

definition orders_in_window :: "int \<Rightarrow> int \<Rightarrow> order_row list \<Rightarrow> order_row list" where
  "orders_in_window start_date end_date rows =
     filter (\<lambda>order. in_window start_date end_date (order_date order)) rows"

type_synonym click_info = "string \<times> string \<times> string option"

definition add_click :: "(string, click_info) dict \<Rightarrow> ad_click \<Rightarrow> (string, click_info) dict" where
  "add_click clicks r =
     dict_set clicks (ac_click_id r) (ac_channel r, ac_campaign_id r, ac_campaign_name r)"

definition clicks_by_id :: "session \<Rightarrow> int \<Rightarrow> int \<Rightarrow> (string, click_info) dict" where
  \<comment> \<open>the comprehension \<open>{r.click_id: (r.channel, r.campaign_id, r.campaign_name) for r in ...}\<close>\<close>
  "clicks_by_id s start_date end_date =
     foldl add_click []
       (filter (\<lambda>r. in_window start_date end_date (ac_date r)) (raw_ad_clicks s))"

record click_state =
  cl_session :: session
  attributed_order_ids :: "string set"
  cl_count :: nat

definition add_event :: "session \<Rightarrow> attribution_event \<Rightarrow> session" where
  \<comment> \<open>\<open>session.add(AttributionEvent(...))\<close>\<close>
  "add_event s e = s\<lparr>attribution_events := attribution_events s @ [e]\<rparr>"

definition click_step ::
  "(string, click_info) dict \<Rightarrow> string \<Rightarrow> click_state \<Rightarrow> order_row \<Rightarrow> click_state" where
  \<comment> \<open>the body of each of the two loops over orders, every \<open>continue\<close> leaving the state as it is\<close>
  "click_step clicks run_id st order =
     (case click_id order of
        None \<Rightarrow> st
      | Some cid \<Rightarrow>
          if cid = [] \<or> strip cid = [] then st
          else
            (case map_of clicks (strip cid) of
               None \<Rightarrow> st
             | Some (channel, campaign_id, campaign_name) \<Rightarrow>
                 (let rev_amount = order_revenue order
                  in if rev_amount \<le> 0 then st
                     else
                       st\<lparr>cl_session :=
                            add_event (cl_session st)
                              \<lparr>ev_order_id = order_id order,
                               ev_channel = channel,
                               ev_campaign_id = Some campaign_id,
                               ev_cost_center = campaign_name,
                               ev_weight = 1,
                               ev_allocated_revenue = rev_amount,
                               ev_event_date = order_date order,
                               ev_run_id = run_id\<rparr>,
                          attributed_order_ids :=
                            insert (order_id order) (attributed_order_ids st),
                          cl_count := cl_count st + 1\<rparr>)))"

definition run_click_id_attribution ::
  "session \<Rightarrow> string \<Rightarrow> int \<Rightarrow> int \<Rightarrow> session \<times> nat \<times> string set" where
  "run_click_id_attribution s run_id start_date end_date =
     (let clicks = clicks_by_id s start_date end_date
      in if clicks = [] then (s, 0, {})
         else
           let st = \<lparr>cl_session = s, attributed_order_ids = {}, cl_count = 0\<rparr>;
               st = foldl (click_step clicks run_id) st
                      (orders_in_window start_date end_date (raw_shopify_orders s));
               st = foldl (click_step clicks run_id) st
                      (orders_in_window start_date end_date (raw_woocommerce_orders s))
           in (cl_session st, cl_count st, attributed_order_ids st))"

section \<open>Attribution runner (packages/attribution/src/runner.py)\<close>

record order_frame_row =
  of_order_id :: string
  of_order_date :: int
  of_revenue :: real

record spend_row =
  sp_date :: int
  sp_channel :: string
  sp_spend :: real

record allocation =
  al_order_id :: string
  al_date :: int
  al_channel :: string
  al_weight :: real
  al_revenue :: real

definition frame_row :: "order_row \<Rightarrow> order_frame_row" where
  "frame_row order =
     \<lparr>of_order_id = order_id order, of_order_date = order_date order,
      of_revenue = order_revenue order\<rparr>"

definition orders_df :: "session \<Rightarrow> int \<Rightarrow> int \<Rightarrow> string set option \<Rightarrow> order_frame_row list" where
  \<comment> \<open>\<open>_orders_df\<close>: Shopify rows, then WooCommerce rows, without the excluded identifiers\<close>
  "orders_df s start_date end_date order_ids_to_exclude =
     (let exclude = (case order_ids_to_exclude of None \<Rightarrow> {} | Some ids \<Rightarrow> ids)
      in map frame_row
           (filter (\<lambda>order. order_id order \<notin> exclude)
              (orders_in_window start_date end_date (raw_shopify_orders s)))
         @ map frame_row
             (filter (\<lambda>order. order_id order \<notin> exclude)
                (orders_in_window start_date end_date (raw_woocommerce_orders s))))"

definition channel_spend_rows :: "string \<Rightarrow> int \<Rightarrow> int \<Rightarrow> ad_row list \<Rightarrow> spend_row list" where
  "channel_spend_rows ch start_date end_date rows =
     map (\<lambda>r. \<lparr>sp_date = ad_date r, sp_channel = ch, sp_spend = ad_spend r\<rparr>)
       (ads_in_window start_date end_date rows)"

definition daily_spend_by_channel :: "session \<Rightarrow> int \<Rightarrow> int \<Rightarrow> spend_row list" where
  "daily_spend_by_channel s start_date end_date =
     channel_spend_rows ''meta'' start_date end_date (raw_meta_ads s)
     @ channel_spend_rows ''google'' start_date end_date (raw_google_ads s)
     @ channel_spend_rows ''bing'' start_date end_date (raw_bing_ads s)
     @ channel_spend_rows ''pinterest'' start_date end_date (raw_pinterest_ads s)"

definition DEFAULT_CHANNELS :: "string list" where
  "DEFAULT_CHANNELS = [''meta'', ''google'', ''bing'', ''pinterest'']"

definition unique :: "'a list \<Rightarrow> 'a list" where
  \<comment> \<open>pandas \<open>Series.unique()\<close>: the values in order of first appearance\<close>
  "unique xs = rev (remdups (rev xs))"

definition add_channel_spend :: "(string, real) dict \<Rightarrow> spend_row \<Rightarrow> (string, real) dict" where
  "add_channel_spend totals r =
     dict_set totals (sp_channel r) (dict_get totals (sp_channel r) 0 + sp_spend r)"

definition spending_channels :: "spend_row list \<Rightarrow> (string, real) dict" where
  \<comment> \<open>Modelled from the spec: the channels with nonzero spend in the window, with their total
      spend (section 4.2); packages/attribution/src/allocator.py is not part of the sources.\<close>
  "spending_channels daily_spend =
     filter (\<lambda>p. snd p \<noteq> 0) (foldl add_channel_spend [] daily_spend)"

definition unnormalised_weights ::
  "spend_row list \<Rightarrow> (string, real) dict option \<Rightarrow> (string, real) dict" where
  \<comment> \<open>Modelled from the spec: what the allocation normalises (section 4.2): the explicit
      weights of the channels with nonzero spend when weights are supplied, the spends of those
      channels otherwise.\<close>
  "unnormalised_weights daily_spend channel_weights =
     (case channel_weights of
        Some w \<Rightarrow> map (\<lambda>p. (fst p, dict_get w (fst p) 0)) (spending_channels daily_spend)
      | None \<Rightarrow> spending_channels daily_spend)"

definition allocation_weights ::
  "spend_row list \<Rightarrow> (string, real) dict option \<Rightarrow> error + (string, real) dict" where
  \<comment> \<open>Modelled from the spec: the weight policy of \<open>fractional_allocate\<close> (section 4.2).  No
      channel with spend: equal split over the default channel set.  Otherwise the explicit
      weights, or else the spends, of the channels with nonzero spend, divided by their total;
      a zero total leaves the divisor at 1 and raises nothing (section 7).\<close>
  "allocation_weights daily_spend channel_weights =
     (if spending_channels daily_spend = [] then
        Inr (map (\<lambda>ch. (ch, 1 / real (length DEFAULT_CHANNELS))) DEFAULT_CHANNELS)
      else
        (let given = unnormalised_weights daily_spend channel_weights
         in normalise (or_one (sum_list (map snd given))) given))"

definition normalisable :: "spend_row list \<Rightarrow> (string, real) dict option \<Rightarrow> bool" where
  \<comment> \<open>no channel has spend (equal split), or what the allocation normalises has a nonzero
      total\<close>
  "normalisable daily_spend channel_weights =
     (if spending_channels daily_spend = [] then True
      else sum_list (map snd (unnormalised_weights daily_spend channel_weights)) \<noteq> 0)"

definition allocate_order :: "(string, real) dict \<Rightarrow> order_frame_row \<Rightarrow> allocation list" where
  \<comment> \<open>Modelled from the spec: one allocation per channel with nonzero weight, of
      \<open>revenue \<times> weight\<close>.\<close>
  "allocate_order weights order =
     map (\<lambda>p. \<lparr>al_order_id = of_order_id order, al_date = of_order_date order,
                al_channel = fst p, al_weight = snd p,
                al_revenue = of_revenue order * snd p\<rparr>)
       (filter (\<lambda>p. snd p \<noteq> 0) weights)"

definition fractional_allocate ::
  "order_frame_row list \<Rightarrow> spend_row list \<Rightarrow> (string, real) dict option
     \<Rightarrow> error + allocation list" where
  \<comment> \<open>Modelled from the spec: \<open>fractional_allocate\<close> of allocator.py, which is not part of
      the sources.\<close>
  "fractional_allocate orders daily_spend channel_weights =
     (case allocation_weights daily_spend channel_weights of
        Inl e \<Rightarrow> Inl e
      | Inr weights \<Rightarrow> Inr (concat (map (allocate_order weights) orders)))"

definition DEFAULT_MIN_SEQUENCES :: int where
  "DEFAULT_MIN_SEQUENCES = 10"

definition markov_credits ::
  "(string list list \<Rightarrow> string list \<Rightarrow> (string, real) dict) \<Rightarrow> string list list \<Rightarrow> string list
     \<Rightarrow> int \<Rightarrow> (string, real) dict option" where
  \<comment> \<open>Modelled from the spec: \<open>markov_credits\<close> of packages/attribution/src/markov.py, which is
      not part of the sources.  Section 4.3: fewer than \<open>min_sequences\<close> sequences give no
      override (\<open>None\<close>); otherwise the removal-effect credits, normalised over the channels,
      which are the parameter \<open>removal_effect\<close> here.\<close>
  "markov_credits removal_effect sequences chans min_sequences =
     (if int (length sequences) < min_sequences then None
      else Some (removal_effect sequences chans))"

definition event_of_allocation :: "string \<Rightarrow> allocation \<Rightarrow> attribution_event" where
  "event_of_allocation run_id a =
     \<lparr>ev_order_id = al_order_id a, ev_channel = al_channel a, ev_campaign_id = None,
      ev_cost_center = None, ev_weight = al_weight a, ev_allocated_revenue = al_revenue a,
      ev_event_date = al_date a, ev_run_id = run_id\<rparr>"

definition add_allocated :: "(string, real) dict \<Rightarrow> allocation \<Rightarrow> (string, real) dict" where
  \<comment> \<open>\<open>total_by_ch[ch] = total_by_ch.get(ch, 0.0) + rev\<close>\<close>
  "add_allocated total_by_ch a =
     dict_set total_by_ch (al_channel a) (dict_get total_by_ch (al_channel a) 0 + al_revenue a)"

definition attribution_channels :: "spend_row list \<Rightarrow> string list" where
  \<comment> \<open>\<open>list(daily_spend["channel"].unique()) if not daily_spend.empty else [...]\<close>\<close>
  "attribution_channels daily_spend =
     (if daily_spend \<noteq> [] then unique (map sp_channel daily_spend) else DEFAULT_CHANNELS)"

definition effective_weights ::
  "(string list list \<Rightarrow> string list \<Rightarrow> (string, real) dict) \<Rightarrow> (string, real) dict option
     \<Rightarrow> string list list option \<Rightarrow> string list \<Rightarrow> int \<Rightarrow> (string, real) dict option" where
  \<comment> \<open>\<open>weights = channel_weights\<close>, replaced by the Markov credits when sequences are given
      and \<open>markov_credits\<close> returns an override\<close>
  "effective_weights removal_effect channel_weights session_sequences chans
       min_sequences_for_markov =
     (case session_sequences of
        None \<Rightarrow> channel_weights
      | Some sequences \<Rightarrow>
          (case markov_credits removal_effect sequences chans min_sequences_for_markov of
             None \<Rightarrow> channel_weights
           | Some markov_w \<Rightarrow> Some markov_w))"

definition core_attribution_logic ::
  "(string list list \<Rightarrow> string list \<Rightarrow> (string, real) dict) \<Rightarrow> session \<Rightarrow> string \<Rightarrow> int \<Rightarrow> int
     \<Rightarrow> (string, real) dict option \<Rightarrow> string list list option \<Rightarrow> int \<Rightarrow> string set option
     \<Rightarrow> error + (session \<times> nat \<times> (string, real) dict \<times> allocation list)" where
  \<comment> \<open>\<open>_core_attribution_logic\<close>\<close>
  "core_attribution_logic removal_effect s run_id start_date end_date channel_weights
       session_sequences min_sequences_for_markov order_ids_to_exclude =
     (let orders = orders_df s start_date end_date order_ids_to_exclude
      in if orders = [] then Inr (s, 0, [], [])
         else
           let daily_spend = daily_spend_by_channel s start_date end_date;
               chans = attribution_channels daily_spend;
               weights = effective_weights removal_effect channel_weights session_sequences
                           chans min_sequences_for_markov
           in case fractional_allocate orders daily_spend weights of
                Inl e \<Rightarrow> Inl e
              | Inr allocated \<Rightarrow>
                  (let s' = foldl add_event s (map (event_of_allocation run_id) allocated);
                       n_written = length allocated;
                       total_by_ch = foldl add_allocated [] allocated;
                       total_rev = or_one (sum_list (map snd total_by_ch))
                   in case normalise total_rev
                             (map (\<lambda>ch. (ch, dict_get total_by_ch ch 0)) chans) of
                        Inl e \<Rightarrow> Inl e
                      | Inr allocations_dict \<Rightarrow>
                          Inr (s', n_written, allocations_dict, allocated)))"



definition events_written :: "session \<Rightarrow> session \<Rightarrow> attribution_event list" where
  \<comment> \<open>the rows that a run appended to \<open>attribution_events\<close>\<close>
  "events_written s s' = drop (length (attribution_events s)) (attribution_events s')"

definition click_row ::
  "(string, click_info) dict \<Rightarrow> string \<Rightarrow> order_row \<Rightarrow> attribution_event option" where
  \<comment> \<open>the row that the click pass writes for an order, if it writes one\<close>
  "click_row clicks run_id order =
     (case click_id order of
        None \<Rightarrow> None
      | Some cid \<Rightarrow>
          (case map_of clicks (strip cid) of
             None \<Rightarrow> None
           | Some (channel, campaign_id, campaign_name) \<Rightarrow>
               if strip cid = [] \<or> order_revenue order \<le> 0 then None
               else Some \<lparr>ev_order_id = order_id order, ev_channel = channel,
                          ev_campaign_id = Some campaign_id, ev_cost_center = campaign_name,
                          ev_weight = 1, ev_allocated_revenue = order_revenue order,
                          ev_event_date = order_date order, ev_run_id = run_id\<rparr>))"

definition window_clicks :: "session \<Rightarrow> int \<Rightarrow> int \<Rightarrow> ad_click list" where
  "window_clicks s start_date end_date =
     filter (\<lambda>r. in_window start_date end_date (ac_date r)) (raw_ad_clicks s)"

definition window_orders :: "session \<Rightarrow> int \<Rightarrow> int \<Rightarrow> order_row list" where
  \<comment> \<open>all orders of the window, Shopify first\<close>
  "window_orders s start_date end_date =
     orders_in_window start_date end_date (raw_shopify_orders s)
     @ orders_in_window start_date end_date (raw_woocommerce_orders s)"

text \<open>
  An example store for the attribution run: one google click, two Shopify orders (the first
  with the click's identifier, padded) and one WooCommerce order, meta and google spending 600
  and 400.  \<open>uniform_credits\<close> stands in for
  the removal-effect credits, which are a parameter of the run.
\<close>

definition padded_gclid :: string where
  \<comment> \<open>the click identifier \<open>gclid-1\<close> between a blank and a no-break space\<close>
  "padded_gclid = CHR 0x20 # ''gclid-1'' @ [CHR 0xA0]"

definition order_1001 :: order_row where
  "order_1001 = \<lparr>order_id = ''1001'', order_date = 2, revenue = 100, net_revenue = Some 90,
     click_id = Some padded_gclid\<rparr>"

definition order_1002 :: order_row where
  "order_1002 = \<lparr>order_id = ''1002'', order_date = 2, revenue = 100, net_revenue = None,
     click_id = Some ''unknown''\<rparr>"

definition order_w1 :: order_row where
  "order_w1 = \<lparr>order_id = ''w-1'', order_date = 3, revenue = 40, net_revenue = Some 0,
     click_id = Some ''gclid-1''\<rparr>"

definition click_session :: session where
  "click_session = empty_session\<lparr>
     raw_meta_ads := [\<lparr>ad_date = 1, ad_spend = 600\<rparr>],
     raw_google_ads := [\<lparr>ad_date = 1, ad_spend = 400\<rparr>],
     raw_shopify_orders := [order_1001, order_1002],
     raw_woocommerce_orders := [order_w1],
     raw_ad_clicks := [\<lparr>ac_click_id = ''gclid-1'', ac_date = 1, ac_campaign_id = ''cmp-1'',
        ac_campaign_name = Some ''Brand'', ac_channel = ''google''\<rparr>]\<rparr>"

definition uniform_credits :: "string list list \<Rightarrow> string list \<Rightarrow> (string, real) dict" where
  "uniform_credits sequences chans = map (\<lambda>ch. (ch, 1 / real (length chans))) chans"

section \<open>Feature transforms (packages/mmm/src/transforms.py)\<close>

definition adstock_decay :: "real \<Rightarrow> real" where
  \<comment> \<open>Modelled from the spec: \<open>decay = 0.5^(1/half_life)\<close> (section 4.5); transforms.py is not
      part of the sources.\<close>
  "adstock_decay half_life = (1 / 2) powr (1 / half_life)"

fun adstock_from :: "real \<Rightarrow> real \<Rightarrow> real list \<Rightarrow> real list" where
  \<comment> \<open>Modelled from the spec: the carryover filter
      \<open>adstocked[t] = spend[t] + decay \<times> adstocked[t-1]\<close>, started from the carry of the day
      before.\<close>
  "adstock_from decay carry [] = []"
| "adstock_from decay carry (x # xs) =
     (x + decay * carry) # adstock_from decay (x + decay * carry) xs"

definition adstock_transform :: "real list \<Rightarrow> real \<Rightarrow> real list" where
  \<comment> \<open>Modelled from the spec: \<open>adstock_transform(spend, half_life)\<close>, nothing carried into
      the first day.\<close>
  "adstock_transform spend half_life = adstock_from (adstock_decay half_life) 0 spend"

definition saturation_log :: "real list \<Rightarrow> real list" where
  \<comment> \<open>Modelled from the spec: the elementwise \<open>log(1 + x)\<close> saturation.\<close>
  "saturation_log xs = map (\<lambda>x. ln (1 + x)) xs"

section \<open>MMM runner (packages/mmm/src/runner.py)\<close>

text \<open>
  A matrix is the list of its columns, each of the length of the date range.  The values of the
  dictionary that \<open>run_mmm\<close> returns are Python values of several types.
\<close>

datatype pyval = PNone | PFloat real | PStr string | PList "pyval list"
  | PDict "(string \<times> pyval) list"

record pipeline_out =
  po_coefficients :: "(string, real) dict"
  po_r2 :: "real option"
  po_model_version :: string
  po_adj_r2 :: "real option"
  po_mape :: "real option"
  po_vif :: "(string, real) dict"
  po_elasticities :: "(string, real) dict"
  po_bootstrap_ci :: "(string, real \<times> real) dict"
  po_stability_index :: real
  po_confidence_score :: real

definition date_range :: "int \<Rightarrow> int \<Rightarrow> int list" where
  \<comment> \<open>\<open>pd.date_range(start, end, freq="D")\<close>: empty when the end precedes the start\<close>
  "date_range start_date end_date = [start_date..end_date]"

definition date_to_idx :: "int \<Rightarrow> int \<Rightarrow> int \<Rightarrow> nat option" where
  \<comment> \<open>\<open>date_to_idx.get(d)\<close>\<close>
  "date_to_idx start_date end_date d =
     (if in_window start_date end_date d then Some (nat (d - start_date)) else None)"

definition add_order_revenue :: "(int, real) dict \<Rightarrow> order_row \<Rightarrow> (int, real) dict" where
  \<comment> \<open>\<open>rev_by_date[od] = rev_by_date.get(od, 0) + float(rev)\<close>\<close>
  "add_order_revenue rev_by_date order =
     dict_set rev_by_date (order_date order)
       (dict_get rev_by_date (order_date order) 0 + order_revenue order)"

definition channel_table :: "session \<Rightarrow> string \<Rightarrow> ad_row list option" where
  \<comment> \<open>\<open>ch_to_model.get(ch)\<close>\<close>
  "channel_table s ch =
     (if ch = ''meta'' then Some (raw_meta_ads s)
      else if ch = ''google'' then Some (raw_google_ads s)
      else if ch = ''bing'' then Some (raw_bing_ads s)
      else if ch = ''pinterest'' then Some (raw_pinterest_ads s)
      else None)"

definition add_spend_at :: "int \<Rightarrow> int \<Rightarrow> real list \<Rightarrow> ad_row \<Rightarrow> real list" where
  \<comment> \<open>\<open>if i is not None: spend_matrix[i, j] += r.spend\<close>\<close>
  "add_spend_at start_date end_date col r =
     (case date_to_idx start_date end_date (ad_date r) of
        None \<Rightarrow> col
      | Some i \<Rightarrow> col[i := col ! i + ad_spend r])"

definition spend_column :: "session \<Rightarrow> int \<Rightarrow> int \<Rightarrow> string \<Rightarrow> real list" where
  "spend_column s start_date end_date ch =
     (let zeros = replicate (length (date_range start_date end_date)) 0
      in case channel_table s ch of
           None \<Rightarrow> zeros
         | Some rows \<Rightarrow>
             foldl (add_spend_at start_date end_date) zeros
               (ads_in_window start_date end_date rows))"

definition daily_spend_matrix ::
  "session \<Rightarrow> int \<Rightarrow> int \<Rightarrow> string list \<Rightarrow> int list \<times> real list list \<times> real list" where
  \<comment> \<open>\<open>_daily_spend_matrix\<close>: the dates, the spend matrix and the revenue vector\<close>
  "daily_spend_matrix s start_date end_date chans =
     (let dates = date_range start_date end_date;
          rev_by_date = foldl add_order_revenue []
                          (orders_in_window start_date end_date (raw_shopify_orders s));
          rev_by_date = foldl add_order_revenue rev_by_date
                          (orders_in_window start_date end_date (raw_woocommerce_orders s));
          rev_vec = map (\<lambda>d. dict_get rev_by_date d 0) dates;
          spend_matrix = map (spend_column s start_date end_date) chans
      in (dates, spend_matrix, rev_vec))"

definition feature_columns :: "real list list \<Rightarrow> real \<Rightarrow> real list list" where
  \<comment> \<open>the loop \<open>for j in range(spend_matrix.shape[1])\<close>: column \<open>j\<close> is adstocked, then
      saturated\<close>
  "feature_columns spend_matrix adstock_half_life =
     map (\<lambda>col. saturation_log (adstock_transform col adstock_half_life)) spend_matrix"

definition hstack :: "real list list \<Rightarrow> error + real list list" where
  \<comment> \<open>\<open>np.hstack\<close> of column vectors: numpy raises \<open>ValueError\<close> when there is no array to
      concatenate\<close>
  "hstack X_list = (if X_list = [] then Inl ValueError else Inr X_list)"

definition matrix_size :: "real list list \<Rightarrow> nat" where
  \<comment> \<open>\<open>X.size\<close>: the number of entries\<close>
  "matrix_size X = sum_list (map length X)"

definition version_or :: "string option \<Rightarrow> string \<Rightarrow> string" where
  \<comment> \<open>\<open>mmm_version or MMM_VERSION\<close>\<close>
  "version_or mmm_version dflt =
     (case mmm_version of None \<Rightarrow> dflt | Some v \<Rightarrow> if v = [] then dflt else v)"

definition add_mmm_row :: "session \<Rightarrow> mmm_results_row \<Rightarrow> session" where
  \<comment> \<open>\<open>session.add(MMMResults(...))\<close>\<close>
  "add_mmm_row s r = s\<lparr>mmm_results := mmm_results s @ [r]\<rparr>"

definition float_dict :: "(string, real) dict \<Rightarrow> pyval" where
  "float_dict d = PDict (map (\<lambda>p. (fst p, PFloat (snd p))) d)"

definition opt_float :: "real option \<Rightarrow> pyval" where
  "opt_float x = (case x of None \<Rightarrow> PNone | Some v \<Rightarrow> PFloat v)"

definition interval_dict :: "(string, real \<times> real) dict \<Rightarrow> pyval" where
  "interval_dict d = PDict (map (\<lambda>p. (fst p, PList [PFloat (fst (snd p)), PFloat (snd (snd p))])) d)"

definition zero_coefficients :: "string list \<Rightarrow> (string, real) dict" where
  \<comment> \<open>\<open>{ch: 0.0 for ch in channels}\<close>\<close>
  "zero_coefficients chans = foldl (\<lambda>d ch. dict_set d ch 0) [] chans"

definition run_mmm ::
  "(real list list \<Rightarrow> real list \<Rightarrow> string list \<Rightarrow> nat \<Rightarrow> string \<Rightarrow> pipeline_out) \<Rightarrow> string \<Rightarrow> int
     \<Rightarrow> session \<Rightarrow> string \<Rightarrow> int \<Rightarrow> int \<Rightarrow> string list option \<Rightarrow> real \<Rightarrow> real \<Rightarrow> nat
     \<Rightarrow> string option \<Rightarrow> error + (session \<times> (string, pyval) dict)" where
  \<comment> \<open>\<open>run_mmm\<close>.  Not part of the sources and therefore parameters: \<open>fit_pipeline\<close> of
      packages/mmm/src/model.py, the constant \<open>MMM_VERSION\<close> of governance/versions.py, and the
      clock \<open>now\<close> that stamps \<open>created_at\<close>.\<close>
  "run_mmm fit_pipeline MMM_VERSION now s run_id start_date end_date channel_list
       adstock_half_life ridge_alpha n_boot mmm_version =
     (let chans = (case channel_list of None \<Rightarrow> DEFAULT_CHANNELS | Some cs \<Rightarrow> cs)
      in case daily_spend_matrix s start_date end_date chans of
           (dates, spend_matrix, rev_vec) \<Rightarrow>
             (let X_list = feature_columns spend_matrix adstock_half_life
              in case hstack X_list of
                   Inl e \<Rightarrow> Inl e
                 | Inr X \<Rightarrow>
                     if matrix_size X = 0 \<or> length rev_vec = 0 then
                       Inr (foldl add_mmm_row s
                              (map (\<lambda>ch. \<lparr>mr_run_id = run_id, mr_created_at = now,
                                           mr_channel = ch, mr_coefficient = 0,
                                           mr_goodness_of_fit_r2 = None,
                                           mr_model_version =
                                             Some (version_or mmm_version MMM_VERSION)\<rparr>)
                                 chans),
                            [(''run_id'', PStr run_id),
                             (''r2'', PNone),
                             (''coefficients'', float_dict (zero_coefficients chans)),
                             (''vif'', PDict []),
                             (''elasticities'', PDict []),
                             (''bootstrap_ci'', PDict []),
                             (''stability_index'', PFloat 0),
                             (''confidence_score'', PFloat 0)])
                     else
                       (let out = fit_pipeline X rev_vec chans n_boot
                                    (version_or mmm_version MMM_VERSION);
                            coefs = po_coefficients out;
                            r2 = po_r2 out
                        in Inr (foldl add_mmm_row s
                                  (map (\<lambda>ch. \<lparr>mr_run_id = run_id, mr_created_at = now,
                                               mr_channel = ch,
                                               mr_coefficient = dict_get coefs ch 0,
                                               mr_goodness_of_fit_r2 = r2,
                                               mr_model_version =
                                                 Some (po_model_version out)\<rparr>)
                                     chans),
                                [(''run_id'', PStr run_id),
                                 (''r2'', opt_float r2),
                                 (''coefficients'', float_dict coefs),
                                 (''model_version'', PStr (po_model_version out)),
                                 (''adj_r2'', opt_float (po_adj_r2 out)),
                                 (''mape'', opt_float (po_mape out)),
                                 (''vif'', float_dict (po_vif out)),
                                 (''elasticities'', float_dict (po_elasticities out)),
                                 (''bootstrap_ci'', interval_dict (po_bootstrap_ci out)),
                                 (''stability_index'', PFloat (po_stability_index out)),
                                 (''confidence_score'', PFloat (po_confidence_score out))]))))"

definition mmm_rows_written :: "session \<Rightarrow> session \<Rightarrow> mmm_results_row list" where
  \<comment> \<open>the rows that a run appended to \<open>mmm_results\<close>\<close>
  "mmm_rows_written s s' = drop (length (mmm_results s)) (mmm_results s')"

definition CLAIMED_KEYS :: "string list" where
  \<comment> \<open>the keys that section 6 of the specification lists for the result of \<open>run_mmm\<close>\<close>
  "CLAIMED_KEYS = [''coefficients'', ''r2'', ''adj_r2'', ''mape'', ''vif'', ''elasticities'',
     ''bootstrap_ci'', ''stability_index'', ''confidence_score'']"

definition COMMON_KEYS :: "string list" where
  \<comment> \<open>the keys that the docstring of \<open>run_mmm\<close> lists\<close>
  "COMMON_KEYS = [''run_id'', ''r2'', ''coefficients'', ''vif'', ''elasticities'',
     ''bootstrap_ci'', ''stability_index'', ''confidence_score'']"

definition result_keys :: "error + (session \<times> (string, pyval) dict) \<Rightarrow> error + string list" where
  \<comment> \<open>the keys of the dictionary that a call returns, or the exception it raises\<close>
  "result_keys res = (case res of Inl e \<Rightarrow> Inl e | Inr (s', d) \<Rightarrow> Inr (map fst d))"

definition zero_fit ::
  "real list list \<Rightarrow> real list \<Rightarrow> string list \<Rightarrow> nat \<Rightarrow> string \<Rightarrow> pipeline_out" where
  \<comment> \<open>a stand-in for \<open>fit_pipeline\<close> in the examples: the fallback fit of section 7, zero
      coefficients and no R-squared\<close>
  "zero_fit X y channel_names n_boot model_version =
     \<lparr>po_coefficients = map (\<lambda>ch. (ch, 0)) channel_names, po_r2 = None,
      po_model_version = model_version, po_adj_r2 = None, po_mape = None, po_vif = [],
      po_elasticities = [], po_bootstrap_ci = [], po_stability_index = 0,
      po_confidence_score = 0\<rparr>"

section \<open>Properties of the attribution versus MMM report\<close>

lemma or_one_nonzero: "or_one x \<noteq> 0"
  by (simp add: or_one_def)

lemma normalise_nonzero:
  "denom \<noteq> 0 \<Longrightarrow> normalise denom d = Inr (map (\<lambda>(ch, v). (ch, v / denom)) d)"
  by (induction d) (auto simp: py_div_def)

lemma foldl_add_sum_list:
  fixes f :: "'a \<Rightarrow> real"
  shows "foldl (\<lambda>acc x. acc + f x) a xs = a + sum_list (map f xs)"
  by (induction xs arbitrary: a) simp_all

lemma dict_get_share_or_zero: "dict_get d ch 0 = share_or_zero d ch"
  by (simp add: dict_get_def share_or_zero_def)

lemma sum_list_sort_remdups:
  fixes f :: "string \<Rightarrow> real"
  shows "sum_list (map f (sort (remdups ks))) = sum f (set ks)"
proof -
  have "distinct (sort (remdups ks))" by simp
  then have "sum_list (map f (sort (remdups ks))) = sum f (set (sort (remdups ks)))"
    by (rule sum_list_distinct_conv_sum_set)
  then show ?thesis by simp
qed

lemma disagreement_l1: "disagreement a m = l1_disagreement a m"
  unfolding disagreement_def l1_disagreement_def report_channels_def
  by (simp add: foldl_add_sum_list dict_get_share_or_zero sum_list_sort_remdups)

lemma mmm_contribution_share_Inr:
  "\<exists>c sh. mmm_contribution_share resp s spend mmm_run_id half_life = Inr (c, sh)"
  by (simp add: mmm_contribution_share_def Let_def normalise_nonzero or_one_nonzero)

lemma build_report_Inr:
  "\<exists>a m. build_attribution_mmm_report resp s sd ed arid mrid thr = Inr (report_of_shares a m thr)"
proof -
  obtain c sh where "mmm_contribution_share resp s (spend_by_channel s sd ed) mrid
      DEFAULT_ADSTOCK_HALF_LIFE = Inr (c, sh)"
    using mmm_contribution_share_Inr by blast
  then show ?thesis
    by (auto simp: build_attribution_mmm_report_def Let_def normalise_nonzero or_one_nonzero)
qed

lemma scenario_shares_disagreement: "disagreement [(''meta'', 0.6), (''google'', 0.4)] [(''meta'', 0.3), (''google'', 0.7)] = 0.6"
  by (simp add: disagreement_def report_channels_def dict_get_def)

lemma scenario_shares_report: "report_of_shares [(''meta'', 0.6), (''google'', 0.4)] [(''meta'', 0.3), (''google'', 0.7)] INSTABILITY_THRESHOLD 
  = \<lparr>channels = [''google'', ''meta''],
          attribution_share = [(''meta'', 0.6), (''google'', 0.4)],
          mmm_share = [(''meta'', 0.3), (''google'', 0.7)],
          disagreement_score = 0.6,
          instability_flagged = True\<rparr>"
  unfolding report_of_shares_def Let_def scenario_shares_disagreement
  by (simp add: INSTABILITY_THRESHOLD_def py_round_def Let_def report_channels_def)

lemma map_of_dict_set: "map_of (dict_set d k v) = (map_of d)(k \<mapsto> v)"
  by (induction d) (auto simp: fun_eq_iff)

lemma keys_dict_set: "fst ` set (dict_set d k v) = insert k (fst ` set d)"
  by (induction d) force+

lemma distinct_dict_set: "distinct (map fst d) \<Longrightarrow> distinct (map fst (dict_set d k v))"
proof (induction d)
  case Nil
  then show ?case by simp
next
  case (Cons p d)
  then show ?case
    by (cases p) (auto simp: keys_dict_set)
qed

lemma map_of_normalise:
  "denom \<noteq> 0 \<Longrightarrow> normalise denom d = Inr sh \<Longrightarrow>
     map_of sh ch = map_option (\<lambda>v. v / denom) (map_of d ch)"
  by (induction d arbitrary: sh) (auto simp: py_div_def normalise_nonzero)

lemma map_of_keep_first:
  "map_of (keep_first acc r) ch =
     (case map_of acc ch of
        Some v \<Rightarrow> Some v
      | None \<Rightarrow> if mr_channel r = ch then Some (mr_coefficient r) else None)"
proof (cases "mr_channel r \<in> set (map fst acc)")
  case True
  then have "map_of acc (mr_channel r) \<noteq> None"
    by (simp add: map_of_eq_None_iff)
  with True show ?thesis
    by (auto simp: keep_first_def split: option.splits)
next
  case False
  then have "map_of acc (mr_channel r) = None"
    by (simp add: map_of_eq_None_iff)
  with False show ?thesis
    by (auto simp: keep_first_def map_of_dict_set split: option.splits)
qed

lemma first_per_channel_foldl:
  "map_of (foldl keep_first acc rows) ch =
   (case map_of acc ch of
      Some v \<Rightarrow> Some v
    | None \<Rightarrow> map_option mr_coefficient (find (\<lambda>r. mr_channel r = ch) rows))"
proof (induction rows arbitrary: acc)
  case Nil
  then show ?case by (simp split: option.splits)
next
  case (Cons r rows)
  have "map_of (foldl keep_first acc (r # rows)) ch = map_of (foldl keep_first (keep_first acc r) rows) ch"
    by simp
  also have "\<dots> = (case map_of (keep_first acc r) ch of
      Some v \<Rightarrow> Some v
    | None \<Rightarrow> map_option mr_coefficient (find (\<lambda>r. mr_channel r = ch) rows))"
    by (rule Cons.IH)
  also have "\<dots> = (case map_of acc ch of
      Some v \<Rightarrow> Some v
    | None \<Rightarrow> map_option mr_coefficient (find (\<lambda>r. mr_channel r = ch) (r # rows)))"
    by (simp add: map_of_keep_first split: option.splits)
  finally show ?case .
qed

lemma map_of_first_per_channel:
  "map_of (first_per_channel rows) ch = map_option mr_coefficient (find (\<lambda>r. mr_channel r = ch) rows)"
  by (simp add: first_per_channel_def first_per_channel_foldl)

lemma distinct_keep_first: "distinct (map fst acc) \<Longrightarrow> distinct (map fst (keep_first acc r))"
  by (simp add: keep_first_def distinct_dict_set)

lemma distinct_first_per_channel_foldl:
  "distinct (map fst acc) \<Longrightarrow> distinct (map fst (foldl keep_first acc rows))"
proof (induction rows arbitrary: acc)
  case Nil
  then show ?case by simp
next
  case (Cons r rows)
  from Cons.prems have "distinct (map fst (keep_first acc r))" by (rule distinct_keep_first)
  then have "distinct (map fst (foldl keep_first (keep_first acc r) rows))" by (rule Cons.IH)
  then show ?case by simp
qed

lemma distinct_first_per_channel: "distinct (map fst (first_per_channel rows))"
  by (simp add: first_per_channel_def distinct_first_per_channel_foldl)

lemma map_of_add_contribution:
  "map_of (add_contribution resp spend half_life acc p) ch =
     (if fst p = ch then Some (snd p * resp (dict_get spend ch 0) half_life) else map_of acc ch)"
  by (simp add: add_contribution_def map_of_dict_set)

lemma contribution_foldl:
  "distinct (map fst by_channel) \<Longrightarrow>
   map_of (foldl (add_contribution resp spend half_life) acc by_channel) ch =
   (case map_of by_channel ch of
      Some coef \<Rightarrow> Some (coef * resp (dict_get spend ch 0) half_life)
    | None \<Rightarrow> map_of acc ch)"
proof (induction by_channel arbitrary: acc)
  case Nil
  then show ?case by simp
next
  case (Cons p by_channel)
  have d: "distinct (map fst by_channel)" and n: "fst p \<notin> fst ` set by_channel"
    using Cons.prems by simp_all
  have "map_of (foldl (add_contribution resp spend half_life) acc (p # by_channel)) ch =
        map_of (foldl (add_contribution resp spend half_life) (add_contribution resp spend half_life acc p) by_channel) ch"
    by simp
  also have "\<dots> = (case map_of by_channel ch of
      Some coef \<Rightarrow> Some (coef * resp (dict_get spend ch 0) half_life)
    | None \<Rightarrow> map_of (add_contribution resp spend half_life acc p) ch)"
    by (rule Cons.IH[OF d])
  also have "\<dots> = (case map_of (p # by_channel) ch of
      Some coef \<Rightarrow> Some (coef * resp (dict_get spend ch 0) half_life)
    | None \<Rightarrow> map_of acc ch)"
  proof (cases "fst p = ch")
    case True
    with n have "map_of by_channel ch = None" by (simp add: map_of_eq_None_iff)
    with True show ?thesis by (cases p) (simp add: map_of_add_contribution)
  next
    case False
    then show ?thesis by (cases p) (simp add: map_of_add_contribution split: option.splits)
  qed
  finally show ?case .
qed

lemma map_of_contribution_of:
  "distinct (map fst by_channel) \<Longrightarrow>
   map_of (contribution_of resp spend half_life by_channel) ch =
   map_option (\<lambda>coef. coef * resp (dict_get spend ch 0) half_life) (map_of by_channel ch)"
  by (simp add: contribution_of_def contribution_foldl split: option.splits)

lemma find_sorted_unique_min:
  fixes f :: "'a \<Rightarrow> int"
  assumes "sorted (map f ys)" "r \<in> set ys" "P r" "\<forall>r' \<in> set ys. P r' \<and> r' \<noteq> r \<longrightarrow> f r < f r'"
  shows "find P ys = Some r"
  using assms
proof (induction ys)
  case Nil
  then show ?case by simp
next
  case (Cons y ys)
  show ?case
  proof (cases "P y")
    case True
    have "y = r"
    proof (rule ccontr)
      assume "y \<noteq> r"
      with True Cons.prems have "f r < f y" by auto
      moreover from \<open>y \<noteq> r\<close> Cons.prems have "r \<in> set ys" by auto
      with Cons.prems(1) have "f y \<le> f r" by auto
      ultimately show False by simp
    qed
    with True show ?thesis by simp
  next
    case False
    with Cons.prems have "r \<in> set ys" by auto
    with Cons.prems False show ?thesis by (auto intro!: Cons.IH[simplified])
  qed
qed

lemma find_mmm_rows_latest:
  assumes "\<not> truthy mmm_run_id" "r \<in> set (mmm_results s)"
    and "\<forall>r' \<in> set (mmm_results s). mr_channel r' = mr_channel r \<and> r' \<noteq> r \<longrightarrow> mr_created_at r' < mr_created_at r"
  shows "find (\<lambda>x. mr_channel x = mr_channel r) (mmm_rows s mmm_run_id) = Some r"
proof -
  have "mmm_rows s mmm_run_id = sort_key (\<lambda>r. - mr_created_at r) (mmm_results s)"
    using assms(1) by (simp add: mmm_rows_def)
  moreover have "find (\<lambda>x. mr_channel x = mr_channel r) (sort_key (\<lambda>r. - mr_created_at r) (mmm_results s)) = Some r"
    by (rule find_sorted_unique_min[where f = "\<lambda>r. - mr_created_at r"]) (use assms in auto)
  ultimately show ?thesis by simp
qed

lemma spend_cancelling: "spend_by_channel cancelling_session 0 10 = [(''meta'', 100), (''google'', 100)]"
  by (simp add: spend_by_channel_def cancelling_session_def empty_session_def ads_in_window_def
      in_window_def add_spend_def dict_get_def)

lemma rows_cancelling: "first_per_channel (mmm_rows cancelling_session None) = [(''meta'', 2), (''google'', -2)]"
  by (simp add: mmm_rows_def cancelling_session_def empty_session_def truthy_def first_per_channel_def keep_first_def)

text \<open>
  Claim C4, as stated, fails.  Two MMM rows with coefficients 2 and -2 and the same spend of 100
  on both channels give the contributions \<open>2 ln 101\<close> and \<open>-2 ln 101\<close>: their total is zero, the
  denominator becomes 1, and the shares are the contributions themselves, not 0.
\<close>

theorem cancelling_contributions_counterexample:
  "mmm_contribution_share log_response cancelling_session
       (spend_by_channel cancelling_session 0 10) None DEFAULT_ADSTOCK_HALF_LIFE =
     Inr ([(''meta'', 2 * ln 101), (''google'', - 2 * ln 101)],
          [(''meta'', 2 * ln 101), (''google'', - 2 * ln 101)])
   \<and> sum_list (map snd [(''meta'', 2 * ln 101), (''google'', - 2 * ln (101::real))]) = 0
   \<and> 2 * ln (101::real) \<noteq> 0"
proof -
  have rows: "mmm_rows cancelling_session None \<noteq> []"
    by (simp add: mmm_rows_def cancelling_session_def empty_session_def truthy_def)
  have c: "contribution_of log_response [(''meta'', 100), (''google'', 100)] DEFAULT_ADSTOCK_HALF_LIFE
      [(''meta'', 2), (''google'', -2)] = [(''meta'', 2 * ln 101), (''google'', - 2 * ln 101)]"
    by (simp add: contribution_of_def add_contribution_def log_response_def dict_get_def)
  show ?thesis
    using rows
    by (simp add: mmm_contribution_share_def Let_def spend_cancelling rows_cancelling c or_one_def py_div_def)
qed

lemma normalise_one: "normalise 1 d = Inr d"
  by (induction d) (auto simp: py_div_def)

lemma report_of_shares_sel:
  "attribution_share (report_of_shares a m thr) = a"
  "mmm_share (report_of_shares a m thr) = m"
  "channels (report_of_shares a m thr) = report_channels a m"
  "disagreement_score (report_of_shares a m thr) = py_round (disagreement a m) 4"
  "instability_flagged (report_of_shares a m thr) = (thr < disagreement a m)"
  by (simp_all add: report_of_shares_def Let_def)

lemma mmm_contribution_share_eq:
  "mmm_contribution_share resp s spend mmm_run_id half_life =
     (if mmm_rows s mmm_run_id = [] then Inr ([], [])
      else Inr (contribution_of resp spend half_life (first_per_channel (mmm_rows s mmm_run_id)),
                map (\<lambda>(ch, v). (ch, v / or_one (sum_list (map snd
                       (contribution_of resp spend half_life (first_per_channel (mmm_rows s mmm_run_id)))))))
                  (contribution_of resp spend half_life (first_per_channel (mmm_rows s mmm_run_id)))))"
  by (simp add: mmm_contribution_share_def Let_def normalise_nonzero or_one_nonzero)

lemma build_report_eq:
  "build_attribution_mmm_report resp s sd ed arid mrid thr =
     Inr (report_of_shares
            (map (\<lambda>(ch, v). (ch, v / or_one (sum_list (map snd (attribution_revenue_by_channel s sd ed arid)))))
               (attribution_revenue_by_channel s sd ed arid))
            (if mmm_rows s mrid = [] then []
             else map (\<lambda>(ch, v). (ch, v / or_one (sum_list (map snd
                       (contribution_of resp (spend_by_channel s sd ed) DEFAULT_ADSTOCK_HALF_LIFE (first_per_channel (mmm_rows s mrid)))))))
                  (contribution_of resp (spend_by_channel s sd ed) DEFAULT_ADSTOCK_HALF_LIFE (first_per_channel (mmm_rows s mrid))))
            thr)"
  by (simp add: build_attribution_mmm_report_def Let_def normalise_nonzero or_one_nonzero
      mmm_contribution_share_eq)

text \<open>
  Claim C3.  \<open>build_attribution_mmm_report\<close> never raises; its channel list is the sorted
  union of the channels of the two share maps; the score that its loop accumulates is the L1 sum
  \<open>\<Sum>|attribution_share - mmm_share|\<close> over that union, a channel missing from one map counting
  as share 0; \<open>instability_flagged\<close> is true exactly when this sum exceeds the threshold
  (default 0.25), and the \<open>disagreement_score\<close> entry of the result is the sum as printed with
  four decimals.  For attribution shares {meta: 0.6, google: 0.4} and MMM shares
  {meta: 0.3, google: 0.7} the score is 0.6 and the flag is true.
\<close>

theorem report_disagreement_is_l1:
  "(\<exists>r. build_attribution_mmm_report resp s start_date end_date attribution_run_id mmm_run_id thr = Inr r
       \<and> channels r = sort (remdups (map fst (attribution_share r) @ map fst (mmm_share r)))
       \<and> disagreement (attribution_share r) (mmm_share r)
             = l1_disagreement (attribution_share r) (mmm_share r)
       \<and> disagreement_score r = py_round (l1_disagreement (attribution_share r) (mmm_share r)) 4
       \<and> instability_flagged r = (thr < l1_disagreement (attribution_share r) (mmm_share r)))
   \<and> disagreement [(''meta'', 0.6), (''google'', 0.4)] [(''meta'', 0.3), (''google'', 0.7)] = 0.6
   \<and> disagreement_score (report_of_shares [(''meta'', 0.6), (''google'', 0.4)]
          [(''meta'', 0.3), (''google'', 0.7)] INSTABILITY_THRESHOLD) = 0.6
   \<and> instability_flagged (report_of_shares [(''meta'', 0.6), (''google'', 0.4)]
          [(''meta'', 0.3), (''google'', 0.7)] INSTABILITY_THRESHOLD)
   \<and> INSTABILITY_THRESHOLD = 0.25"
proof -
  have "\<exists>a m. build_attribution_mmm_report resp s start_date end_date attribution_run_id mmm_run_id thr
          = Inr (report_of_shares a m thr)"
    by (rule build_report_Inr)
  then obtain a m where b: "build_attribution_mmm_report resp s start_date end_date attribution_run_id
      mmm_run_id thr = Inr (report_of_shares a m thr)"
    by blast
  have 1: "\<exists>r. build_attribution_mmm_report resp s start_date end_date attribution_run_id mmm_run_id thr = Inr r
       \<and> channels r = sort (remdups (map fst (attribution_share r) @ map fst (mmm_share r)))
       \<and> disagreement (attribution_share r) (mmm_share r)
             = l1_disagreement (attribution_share r) (mmm_share r)
       \<and> disagreement_score r = py_round (l1_disagreement (attribution_share r) (mmm_share r)) 4
       \<and> instability_flagged r = (thr < l1_disagreement (attribution_share r) (mmm_share r))"
    unfolding b
    by (simp add: report_of_shares_sel disagreement_l1 report_channels_def)
  have 2: "report_of_shares [(''meta'', 0.6), (''google'', 0.4)] [(''meta'', 0.3), (''google'', 0.7)]
      INSTABILITY_THRESHOLD
    = \<lparr>channels = [''google'', ''meta''],
          attribution_share = [(''meta'', 0.6), (''google'', 0.4)],
          mmm_share = [(''meta'', 0.3), (''google'', 0.7)],
          disagreement_score = 0.6,
          instability_flagged = True\<rparr>"
    by (rule scenario_shares_report)
  have 3: "disagreement_score (report_of_shares [(''meta'', 0.6), (''google'', 0.4)]
          [(''meta'', 0.3), (''google'', 0.7)] INSTABILITY_THRESHOLD) = 0.6"
    by (subst 2) simp
  have 4: "instability_flagged (report_of_shares [(''meta'', 0.6), (''google'', 0.4)]
          [(''meta'', 0.3), (''google'', 0.7)] INSTABILITY_THRESHOLD)"
    by (subst 2) simp
  have 5: "INSTABILITY_THRESHOLD = 0.25"
    by (simp add: INSTABILITY_THRESHOLD_def)
  from 1 scenario_shares_disagreement 3 4 5 show ?thesis
    by (intro conjI)
qed

lemma scenario_attr: "attribution_revenue_by_channel scenario_session 0 10 None = [(''meta'', 60), (''google'', 40)]"
  by (simp add: attribution_revenue_by_channel_def scenario_session_def empty_session_def
      in_window_def truthy_def add_revenue_def dict_get_def)

lemma scenario_rows: "first_per_channel (mmm_rows scenario_session None) = [(''meta'', 0), (''google'', 0)]"
  by (simp add: mmm_rows_def scenario_session_def empty_session_def truthy_def
      first_per_channel_def keep_first_def)

lemma scenario_report:
  "build_attribution_mmm_report log_response scenario_session 0 10 None None INSTABILITY_THRESHOLD
     = Inr (report_of_shares [(''meta'', 0.6), (''google'', 0.4)] [(''meta'', 0), (''google'', 0)]
              INSTABILITY_THRESHOLD)"
proof -
  have rows: "mmm_rows scenario_session None \<noteq> []"
    by (simp add: mmm_rows_def scenario_session_def empty_session_def truthy_def)
  have c: "contribution_of log_response (spend_by_channel scenario_session 0 10) DEFAULT_ADSTOCK_HALF_LIFE
      [(''meta'', 0), (''google'', 0)] = [(''meta'', 0), (''google'', 0)]"
    by (simp add: contribution_of_def add_contribution_def)
  show ?thesis
    using rows by (simp add: build_report_eq scenario_attr scenario_rows c or_one_def)
qed

text \<open>
  The report of a store with attributed revenue 60 (meta) and 40 (google) and two MMM rows of
  coefficient 0: the MMM shares are 0, so the score is 0.6 + 0.4 = 1 and the flag is set.
\<close>

theorem report_disagreement_is_l1_witness:
  "\<exists>r. build_attribution_mmm_report log_response scenario_session 0 10 None None INSTABILITY_THRESHOLD = Inr r
       \<and> channels r = [''google'', ''meta'']
       \<and> l1_disagreement (attribution_share r) (mmm_share r) = 1
       \<and> disagreement_score r = 1
       \<and> instability_flagged r"
proof -
  from report_disagreement_is_l1 [of log_response scenario_session 0 10 None None INSTABILITY_THRESHOLD]
  obtain r where r: "build_attribution_mmm_report log_response scenario_session 0 10 None None
        INSTABILITY_THRESHOLD = Inr r"
    and ch: "channels r = sort (remdups (map fst (attribution_share r) @ map fst (mmm_share r)))"
    and l1: "disagreement (attribution_share r) (mmm_share r)
             = l1_disagreement (attribution_share r) (mmm_share r)"
    and sc: "disagreement_score r = py_round (l1_disagreement (attribution_share r) (mmm_share r)) 4"
    and fl: "instability_flagged r
             = (INSTABILITY_THRESHOLD < l1_disagreement (attribution_share r) (mmm_share r))"
    by blast
  from r have req: "r = report_of_shares [(''meta'', 0.6), (''google'', 0.4)]
      [(''meta'', 0), (''google'', 0)] INSTABILITY_THRESHOLD"
    by (simp add: scenario_report)
  have a: "attribution_share r = [(''meta'', 0.6), (''google'', 0.4)]"
    and m: "mmm_share r = [(''meta'', 0), (''google'', 0)]"
    by (simp_all add: req report_of_shares_sel)
  have d: "disagreement [(''meta'', 0.6), (''google'', 0.4)] [(''meta'', 0), (''google'', 0)] = 1"
    by (simp add: disagreement_def report_channels_def dict_get_def)
  have l: "l1_disagreement (attribution_share r) (mmm_share r) = 1"
    using l1 d by (simp add: a m)
  have "channels r = [''google'', ''meta'']"
    using ch by (simp add: a m)
  moreover have "disagreement_score r = 1"
    using sc by (simp add: l py_round_def)
  moreover have "instability_flagged r"
    using fl by (simp add: l INSTABILITY_THRESHOLD_def)
  ultimately show ?thesis
    using r l by blast
qed

lemma map_div_one: "map (\<lambda>(ch, v). (ch, v / (1::real))) d = d"
  by (induction d) auto

lemma shares_of_zero_total:
  fixes d :: "(string, real) dict"
  assumes "sum_list (map snd d) = 0"
  shows "map (\<lambda>(ch, v). (ch, v / or_one (sum_list (map snd d)))) d = d"
  using assms by (simp add: or_one_def map_div_one)

lemma nonneg_zero_sum:
  fixes d :: "(string, real) dict"
  assumes "sum_list (map snd d) = 0" "\<forall>v \<in> set (map snd d). 0 \<le> v"
  shows "\<forall>v \<in> set (map snd d). v = 0"
  using assms sum_list_nonneg_eq_0_iff[of "map snd d"] by blast

text \<open>
  Claim C4, amended.  The share computations never raise.  Whenever the total (of the
  per-channel MMM contributions, or of the per-channel attribution revenue) is zero the
  denominator is 1, so every share equals the raw per-channel value; the shares are all 0 when,
  in addition, no per-channel value is negative.
\<close>

theorem zero_total_keeps_raw_values:
  "(\<exists>c sh. mmm_contribution_share resp s spend mmm_run_id half_life = Inr (c, sh)
       \<and> (sum_list (map snd c) = 0 \<longrightarrow> sh = c)
       \<and> (sum_list (map snd c) = 0 \<and> (\<forall>v \<in> set (map snd c). 0 \<le> v)
            \<longrightarrow> (\<forall>v \<in> set (map snd sh). v = 0)))
   \<and> (\<exists>r. build_attribution_mmm_report resp s start_date end_date attribution_run_id mmm_run_id thr = Inr r
       \<and> (sum_list (map snd (attribution_revenue_by_channel s start_date end_date attribution_run_id)) = 0
            \<longrightarrow> attribution_share r
                  = attribution_revenue_by_channel s start_date end_date attribution_run_id)
       \<and> (sum_list (map snd (attribution_revenue_by_channel s start_date end_date attribution_run_id)) = 0
            \<and> (\<forall>v \<in> set (map snd (attribution_revenue_by_channel s start_date end_date
                                         attribution_run_id)). 0 \<le> v)
            \<longrightarrow> (\<forall>v \<in> set (map snd (attribution_share r)). v = 0)))"
proof (intro conjI)
  show "\<exists>c sh. mmm_contribution_share resp s spend mmm_run_id half_life = Inr (c, sh)
       \<and> (sum_list (map snd c) = 0 \<longrightarrow> sh = c)
       \<and> (sum_list (map snd c) = 0 \<and> (\<forall>v \<in> set (map snd c). 0 \<le> v)
            \<longrightarrow> (\<forall>v \<in> set (map snd sh). v = 0))"
  proof (cases "mmm_rows s mmm_run_id = []")
    case True
    then show ?thesis by (simp add: mmm_contribution_share_eq)
  next
    case False
    let ?c = "contribution_of resp spend half_life (first_per_channel (mmm_rows s mmm_run_id))"
    let ?sh = "map (\<lambda>(ch, v). (ch, v / or_one (sum_list (map snd ?c)))) ?c"
    have e: "mmm_contribution_share resp s spend mmm_run_id half_life = Inr (?c, ?sh)"
      using False by (simp add: mmm_contribution_share_eq)
    have z: "sum_list (map snd ?c) = 0 \<longrightarrow> ?sh = ?c"
      using shares_of_zero_total[of ?c] by blast
    have "sum_list (map snd ?c) = 0 \<and> (\<forall>v \<in> set (map snd ?c). 0 \<le> v)
            \<longrightarrow> (\<forall>v \<in> set (map snd ?sh). v = 0)"
      using shares_of_zero_total[of ?c] nonneg_zero_sum[of ?c] by metis
    with e z show ?thesis by blast
  qed
next
  let ?a = "attribution_revenue_by_channel s start_date end_date attribution_run_id"
  let ?sh = "map (\<lambda>(ch, v). (ch, v / or_one (sum_list (map snd ?a)))) ?a"
  obtain m where e: "build_attribution_mmm_report resp s start_date end_date attribution_run_id
      mmm_run_id thr = Inr (report_of_shares ?sh m thr)"
    using build_report_eq by blast
  have z: "sum_list (map snd ?a) = 0 \<longrightarrow> ?sh = ?a"
    using shares_of_zero_total[of ?a] by blast
  have n: "sum_list (map snd ?a) = 0 \<and> (\<forall>v \<in> set (map snd ?a). 0 \<le> v)
            \<longrightarrow> (\<forall>v \<in> set (map snd ?sh). v = 0)"
    using shares_of_zero_total[of ?a] nonneg_zero_sum[of ?a] by metis
  show "\<exists>r. build_attribution_mmm_report resp s start_date end_date attribution_run_id mmm_run_id thr = Inr r
       \<and> (sum_list (map snd ?a) = 0 \<longrightarrow> attribution_share r = ?a)
       \<and> (sum_list (map snd ?a) = 0 \<and> (\<forall>v \<in> set (map snd ?a). 0 \<le> v)
            \<longrightarrow> (\<forall>v \<in> set (map snd (attribution_share r)). v = 0))"
  proof (intro exI[of _ "report_of_shares ?sh m thr"] conjI)
    show "build_attribution_mmm_report resp s start_date end_date attribution_run_id mmm_run_id thr
        = Inr (report_of_shares ?sh m thr)"
      by (rule e)
    show "sum_list (map snd ?a) = 0 \<longrightarrow> attribution_share (report_of_shares ?sh m thr) = ?a"
      using z by (simp only: report_of_shares_sel)
    show "sum_list (map snd ?a) = 0 \<and> (\<forall>v \<in> set (map snd ?a). 0 \<le> v)
            \<longrightarrow> (\<forall>v \<in> set (map snd (attribution_share (report_of_shares ?sh m thr))). v = 0)"
      using n by (simp only: report_of_shares_sel)
  qed
qed

lemma zero_total_attr:
  "attribution_revenue_by_channel zero_total_session 0 10 None = [(''meta'', 0), (''google'', 0)]"
  by (simp add: attribution_revenue_by_channel_def zero_total_session_def empty_session_def
      in_window_def truthy_def add_revenue_def dict_get_def)

lemma zero_total_contribution:
  "mmm_contribution_share log_response zero_total_session [] None DEFAULT_ADSTOCK_HALF_LIFE
     = Inr ([(''meta'', 0), (''google'', 0)], [(''meta'', 0), (''google'', 0)])"
proof -
  have rows: "mmm_rows zero_total_session None \<noteq> []"
    by (simp add: mmm_rows_def zero_total_session_def empty_session_def truthy_def)
  have f: "first_per_channel (mmm_rows zero_total_session None) = [(''meta'', 0), (''google'', 0)]"
    by (simp add: mmm_rows_def zero_total_session_def empty_session_def truthy_def
        first_per_channel_def keep_first_def)
  have c: "contribution_of log_response [] DEFAULT_ADSTOCK_HALF_LIFE
      [(''meta'', 0), (''google'', 0)] = [(''meta'', 0), (''google'', 0)]"
    by (simp add: contribution_of_def add_contribution_def)
  show ?thesis
    using rows by (simp add: mmm_contribution_share_eq f c or_one_def)
qed

text \<open>
  A store whose attribution rows carry revenue 0 and whose MMM rows carry coefficient 0: both
  totals are zero and all shares are 0.
\<close>

theorem zero_total_keeps_raw_values_witness:
  "mmm_contribution_share log_response zero_total_session [] None DEFAULT_ADSTOCK_HALF_LIFE
     = Inr ([(''meta'', 0), (''google'', 0)], [(''meta'', 0), (''google'', 0)])
   \<and> sum_list (map snd (attribution_revenue_by_channel zero_total_session 0 10 None)) = 0
   \<and> (\<exists>r. build_attribution_mmm_report log_response zero_total_session 0 10 None None
              INSTABILITY_THRESHOLD = Inr r
          \<and> attribution_share r = [(''meta'', 0), (''google'', 0)])"
proof -
  from zero_total_keeps_raw_values [where resp = log_response and s = zero_total_session
      and spend = "[]" and mmm_run_id = None and half_life = DEFAULT_ADSTOCK_HALF_LIFE
      and start_date = 0 and end_date = 10 and attribution_run_id = None
      and thr = INSTABILITY_THRESHOLD]
  obtain r where r: "build_attribution_mmm_report log_response zero_total_session 0 10 None None
        INSTABILITY_THRESHOLD = Inr r"
    and a: "sum_list (map snd (attribution_revenue_by_channel zero_total_session 0 10 None)) = 0
            \<longrightarrow> attribution_share r = attribution_revenue_by_channel zero_total_session 0 10 None"
    by blast
  have z: "sum_list (map snd (attribution_revenue_by_channel zero_total_session 0 10 None)) = 0"
    by (simp add: zero_total_attr)
  with a have "attribution_share r = [(''meta'', 0), (''google'', 0)]"
    by (simp add: zero_total_attr)
  with r z zero_total_contribution show ?thesis by blast
qed

lemma latest_row_in_contribution_share:
  assumes "\<not> truthy mmm_run_id"
  shows "\<exists>c sh. mmm_contribution_share resp s spend mmm_run_id half_life = Inr (c, sh)
     \<and> (\<forall>r \<in> set (mmm_results s).
          (\<forall>r' \<in> set (mmm_results s).
              mr_channel r' = mr_channel r \<and> r' \<noteq> r \<longrightarrow> mr_created_at r' < mr_created_at r)
          \<longrightarrow> map_of (first_per_channel (mmm_rows s mmm_run_id)) (mr_channel r)
                = Some (mr_coefficient r)
            \<and> map_of c (mr_channel r)
                = Some (mr_coefficient r * resp (dict_get spend (mr_channel r) 0) half_life)
            \<and> map_of sh (mr_channel r)
                = Some (mr_coefficient r * resp (dict_get spend (mr_channel r) 0) half_life
                        / or_one (sum_list (map snd c))))"
proof (cases "mmm_results s = []")
  case True
  then show ?thesis by (simp add: mmm_contribution_share_eq mmm_rows_def)
next
  case False
  let ?rows = "mmm_rows s mmm_run_id"
  let ?c = "contribution_of resp spend half_life (first_per_channel ?rows)"
  let ?sh = "map (\<lambda>(ch, v). (ch, v / or_one (sum_list (map snd ?c)))) ?c"
  have rows: "?rows = sort_key (\<lambda>r. - mr_created_at r) (mmm_results s)"
    using assms by (simp add: mmm_rows_def)
  have "length ?rows = length (mmm_results s)"
    by (simp add: rows)
  with False have ne: "?rows \<noteq> []" by auto
  then have e: "mmm_contribution_share resp s spend mmm_run_id half_life = Inr (?c, ?sh)"
    by (simp add: mmm_contribution_share_eq)
  have n: "normalise (or_one (sum_list (map snd ?c))) ?c = Inr ?sh"
    by (simp add: normalise_nonzero or_one_nonzero)
  have "\<forall>r \<in> set (mmm_results s).
          (\<forall>r' \<in> set (mmm_results s).
              mr_channel r' = mr_channel r \<and> r' \<noteq> r \<longrightarrow> mr_created_at r' < mr_created_at r)
          \<longrightarrow> map_of (first_per_channel ?rows) (mr_channel r) = Some (mr_coefficient r)
            \<and> map_of ?c (mr_channel r)
                = Some (mr_coefficient r * resp (dict_get spend (mr_channel r) 0) half_life)
            \<and> map_of ?sh (mr_channel r)
                = Some (mr_coefficient r * resp (dict_get spend (mr_channel r) 0) half_life
                        / or_one (sum_list (map snd ?c)))"
  proof (intro ballI impI)
    fix r
    assume r: "r \<in> set (mmm_results s)"
      and latest: "\<forall>r' \<in> set (mmm_results s).
              mr_channel r' = mr_channel r \<and> r' \<noteq> r \<longrightarrow> mr_created_at r' < mr_created_at r"
    have f: "find (\<lambda>x. mr_channel x = mr_channel r) ?rows = Some r"
      using assms r latest by (rule find_mmm_rows_latest)
    have 1: "map_of (first_per_channel ?rows) (mr_channel r) = Some (mr_coefficient r)"
      by (simp add: map_of_first_per_channel f)
    have 2: "map_of ?c (mr_channel r)
                = Some (mr_coefficient r * resp (dict_get spend (mr_channel r) 0) half_life)"
      by (simp add: map_of_contribution_of distinct_first_per_channel 1)
    have 3: "map_of ?sh (mr_channel r)
                = Some (mr_coefficient r * resp (dict_get spend (mr_channel r) 0) half_life
                        / or_one (sum_list (map snd ?c)))"
      using map_of_normalise[OF or_one_nonzero n, of "mr_channel r"] by (simp add: 2)
    from 1 2 3 show "map_of (first_per_channel ?rows) (mr_channel r) = Some (mr_coefficient r)
            \<and> map_of ?c (mr_channel r)
                = Some (mr_coefficient r * resp (dict_get spend (mr_channel r) 0) half_life)
            \<and> map_of ?sh (mr_channel r)
                = Some (mr_coefficient r * resp (dict_get spend (mr_channel r) 0) half_life
                        / or_one (sum_list (map snd ?c)))"
      by (intro conjI)
  qed
  with e show ?thesis by blast
qed

lemma mixed_first: "first_per_channel (mmm_rows mixed_runs_session None) = [(''google'', 5), (''meta'', 2)]"
  by (simp add: mmm_rows_def mixed_runs_session_def empty_session_def truthy_def
      first_per_channel_def keep_first_def)

lemma build_report_mmm_share:
  assumes "mmm_contribution_share resp s (spend_by_channel s sd ed) mrid
             DEFAULT_ADSTOCK_HALF_LIFE = Inr (c, sh)"
  shows "\<exists>a. build_attribution_mmm_report resp s sd ed arid mrid thr
               = Inr (report_of_shares a sh thr)"
  using assms
  by (auto simp: build_attribution_mmm_report_def Let_def normalise_nonzero or_one_nonzero)

text \<open>
  Claim C10.  When \<open>build_attribution_mmm_report\<close> is called without an \<open>mmm_run_id\<close>
  (absent or empty), every row of \<open>mmm_results\<close> that is strictly the most recently created
  one of its channel supplies the coefficient of that channel, whatever run it belongs to: the
  contribution of the channel is that coefficient times the response to the channel's spend,
  and the MMM share of the report is that contribution over the total.  All channels of one
  report are treated so, hence rows of different runs are mixed.
\<close>

theorem latest_row_per_channel_across_runs:
  assumes "\<not> truthy mmm_run_id"
  shows "\<exists>rep c. build_attribution_mmm_report resp s start_date end_date attribution_run_id
              mmm_run_id thr = Inr rep
     \<and> mmm_contribution_share resp s (spend_by_channel s start_date end_date) mmm_run_id
           DEFAULT_ADSTOCK_HALF_LIFE = Inr (c, mmm_share rep)
     \<and> (\<forall>r \<in> set (mmm_results s).
          (\<forall>r' \<in> set (mmm_results s).
              mr_channel r' = mr_channel r \<and> r' \<noteq> r \<longrightarrow> mr_created_at r' < mr_created_at r)
          \<longrightarrow> map_of (first_per_channel (mmm_rows s mmm_run_id)) (mr_channel r)
                = Some (mr_coefficient r)
            \<and> map_of c (mr_channel r)
                = Some (mr_coefficient r
                        * resp (dict_get (spend_by_channel s start_date end_date) (mr_channel r) 0)
                            DEFAULT_ADSTOCK_HALF_LIFE)
            \<and> map_of (mmm_share rep) (mr_channel r)
                = Some (mr_coefficient r
                        * resp (dict_get (spend_by_channel s start_date end_date) (mr_channel r) 0)
                            DEFAULT_ADSTOCK_HALF_LIFE
                        / or_one (sum_list (map snd c))))"
proof -
  let ?spend = "spend_by_channel s start_date end_date"
  from latest_row_in_contribution_share [OF assms, of resp s ?spend DEFAULT_ADSTOCK_HALF_LIFE]
  obtain c sh where e: "mmm_contribution_share resp s ?spend mmm_run_id
        DEFAULT_ADSTOCK_HALF_LIFE = Inr (c, sh)"
    and all: "\<forall>r \<in> set (mmm_results s).
          (\<forall>r' \<in> set (mmm_results s).
              mr_channel r' = mr_channel r \<and> r' \<noteq> r \<longrightarrow> mr_created_at r' < mr_created_at r)
          \<longrightarrow> map_of (first_per_channel (mmm_rows s mmm_run_id)) (mr_channel r)
                = Some (mr_coefficient r)
            \<and> map_of c (mr_channel r)
                = Some (mr_coefficient r * resp (dict_get ?spend (mr_channel r) 0)
                            DEFAULT_ADSTOCK_HALF_LIFE)
            \<and> map_of sh (mr_channel r)
                = Some (mr_coefficient r * resp (dict_get ?spend (mr_channel r) 0)
                            DEFAULT_ADSTOCK_HALF_LIFE
                        / or_one (sum_list (map snd c)))"
    by blast
  from build_report_mmm_share [OF e] obtain a where
    b: "build_attribution_mmm_report resp s start_date end_date attribution_run_id mmm_run_id thr
          = Inr (report_of_shares a sh thr)"
    by blast
  have m: "mmm_share (report_of_shares a sh thr) = sh"
    by (simp add: report_of_shares_sel)
  from e have e': "mmm_contribution_share resp s ?spend mmm_run_id DEFAULT_ADSTOCK_HALF_LIFE
      = Inr (c, mmm_share (report_of_shares a sh thr))"
    by (simp only: m)
  from all have all': "\<forall>r \<in> set (mmm_results s).
          (\<forall>r' \<in> set (mmm_results s).
              mr_channel r' = mr_channel r \<and> r' \<noteq> r \<longrightarrow> mr_created_at r' < mr_created_at r)
          \<longrightarrow> map_of (first_per_channel (mmm_rows s mmm_run_id)) (mr_channel r)
                = Some (mr_coefficient r)
            \<and> map_of c (mr_channel r)
                = Some (mr_coefficient r * resp (dict_get ?spend (mr_channel r) 0)
                            DEFAULT_ADSTOCK_HALF_LIFE)
            \<and> map_of (mmm_share (report_of_shares a sh thr)) (mr_channel r)
                = Some (mr_coefficient r * resp (dict_get ?spend (mr_channel r) 0)
                            DEFAULT_ADSTOCK_HALF_LIFE
                        / or_one (sum_list (map snd c)))"
    by (simp only: m)
  from b e' all' show ?thesis by blast
qed

text \<open>
  Run A wrote meta (coefficient 2) and google (coefficient 1) at time 1, run B wrote google
  only (coefficient 5) at time 2: the report uses google from run B and meta from run A.
\<close>

theorem latest_row_per_channel_across_runs_witness:
  "\<not> truthy None
   \<and> first_per_channel (mmm_rows mixed_runs_session None) = [(''google'', 5), (''meta'', 2)]
   \<and> (\<exists>rep c. build_attribution_mmm_report log_response mixed_runs_session 0 10 None None
                INSTABILITY_THRESHOLD = Inr rep
          \<and> mmm_contribution_share log_response mixed_runs_session
                (spend_by_channel mixed_runs_session 0 10) None DEFAULT_ADSTOCK_HALF_LIFE
              = Inr (c, mmm_share rep)
          \<and> map_of c ''google'' = Some (5 * ln 101)
          \<and> map_of c ''meta'' = Some (2 * ln 101))"
proof -
  let ?b = "\<lparr>mr_run_id = ''run-B'', mr_created_at = 2, mr_channel = ''google'', mr_coefficient = 5,
          mr_goodness_of_fit_r2 = Some 0.5, mr_model_version = None\<rparr>"
  let ?a = "\<lparr>mr_run_id = ''run-A'', mr_created_at = 1, mr_channel = ''meta'', mr_coefficient = 2,
          mr_goodness_of_fit_r2 = Some 0.5, mr_model_version = None\<rparr>"
  have t: "\<not> truthy None" by (simp add: truthy_def)
  have sp: "spend_by_channel mixed_runs_session 0 10 = [(''meta'', 100), (''google'', 100)]"
    by (simp add: spend_by_channel_def mixed_runs_session_def empty_session_def ads_in_window_def
        in_window_def add_spend_def dict_get_def)
  from latest_row_per_channel_across_runs [OF t, of log_response mixed_runs_session 0 10 None
      INSTABILITY_THRESHOLD]
  obtain rep c where b: "build_attribution_mmm_report log_response mixed_runs_session 0 10 None None
                INSTABILITY_THRESHOLD = Inr rep"
    and e: "mmm_contribution_share log_response mixed_runs_session
        (spend_by_channel mixed_runs_session 0 10) None DEFAULT_ADSTOCK_HALF_LIFE
          = Inr (c, mmm_share rep)"
    and all: "\<forall>r \<in> set (mmm_results mixed_runs_session).
          (\<forall>r' \<in> set (mmm_results mixed_runs_session).
              mr_channel r' = mr_channel r \<and> r' \<noteq> r \<longrightarrow> mr_created_at r' < mr_created_at r)
          \<longrightarrow> map_of c (mr_channel r)
                = Some (mr_coefficient r * log_response
                    (dict_get (spend_by_channel mixed_runs_session 0 10) (mr_channel r) 0)
                    DEFAULT_ADSTOCK_HALF_LIFE)"
    by blast
  have "map_of c (mr_channel ?b) = Some (mr_coefficient ?b * log_response
                    (dict_get (spend_by_channel mixed_runs_session 0 10) (mr_channel ?b) 0)
                    DEFAULT_ADSTOCK_HALF_LIFE)"
    using all by (simp add: mixed_runs_session_def empty_session_def)
  then have g: "map_of c ''google'' = Some (5 * ln 101)"
    by (simp add: sp dict_get_def log_response_def)
  have "map_of c (mr_channel ?a) = Some (mr_coefficient ?a * log_response
                    (dict_get (spend_by_channel mixed_runs_session 0 10) (mr_channel ?a) 0)
                    DEFAULT_ADSTOCK_HALF_LIFE)"
    using all by (simp add: mixed_runs_session_def empty_session_def)
  then have m: "map_of c ''meta'' = Some (2 * ln 101)"
    by (simp add: sp dict_get_def log_response_def)
  from t mixed_first b e g m show ?thesis by blast
qed

section \<open>Properties of the attribution run\<close>

lemma foldl_add_event:
  "foldl add_event s es = s\<lparr>attribution_events := attribution_events s @ es\<rparr>"
  by (induction es arbitrary: s) (simp_all add: add_event_def)

lemma dict_set_nonempty: "dict_set d k v \<noteq> []"
  by (cases d) (auto split: if_splits)

lemma map_of_add_click:
  "map_of (add_click acc r) k =
     (if ac_click_id r = k then Some (ac_channel r, ac_campaign_id r, ac_campaign_name r)
      else map_of acc k)"
  by (simp add: add_click_def map_of_dict_set)

lemma foldl_add_click_nonempty: "rows \<noteq> [] \<or> acc \<noteq> [] \<Longrightarrow> foldl add_click acc rows \<noteq> []"
proof (induction rows arbitrary: acc)
  case Nil
  then show ?case by simp
next
  case (Cons r rows)
  have "add_click acc r \<noteq> []" by (simp add: add_click_def dict_set_nonempty)
  then show ?case using Cons.IH[of "add_click acc r"] by simp
qed

lemma clicks_by_id_empty: "clicks_by_id s sd ed = [] \<longleftrightarrow> window_clicks s sd ed = []"
  using foldl_add_click_nonempty[of "window_clicks s sd ed" "[]"]
  by (auto simp: clicks_by_id_def window_clicks_def)

lemma keys_foldl_add_click:
  "fst ` set (foldl add_click acc rows) = fst ` set acc \<union> ac_click_id ` set rows"
proof (induction rows arbitrary: acc)
  case Nil
  then show ?case by simp
next
  case (Cons r rows)
  have "fst ` set (add_click acc r) = insert (ac_click_id r) (fst ` set acc)"
    by (simp add: add_click_def keys_dict_set)
  then show ?case using Cons.IH[of "add_click acc r"] by auto
qed

lemma map_of_clicks_None:
  "map_of (clicks_by_id s sd ed) k = None \<longleftrightarrow> k \<notin> ac_click_id ` set (window_clicks s sd ed)"
  by (simp add: map_of_eq_None_iff clicks_by_id_def window_clicks_def keys_foldl_add_click)

lemma map_of_foldl_add_click_other:
  "k \<notin> ac_click_id ` set rows \<Longrightarrow> map_of (foldl add_click acc rows) k = map_of acc k"
proof (induction rows arbitrary: acc)
  case Nil
  then show ?case by simp
next
  case (Cons r rows)
  then have "map_of (foldl add_click (add_click acc r) rows) k = map_of (add_click acc r) k"
    by simp
  also have "\<dots> = map_of acc k"
    using Cons.prems by (auto simp: map_of_add_click)
  finally show ?case by simp
qed

lemma map_of_foldl_add_click_distinct:
  "distinct (map ac_click_id rows) \<Longrightarrow> c \<in> set rows \<Longrightarrow>
     map_of (foldl add_click acc rows) (ac_click_id c)
       = Some (ac_channel c, ac_campaign_id c, ac_campaign_name c)"
proof (induction rows arbitrary: acc)
  case Nil
  then show ?case by simp
next
  case (Cons r rows)
  show ?case
  proof (cases "c = r")
    case True
    from Cons.prems have "ac_click_id r \<notin> ac_click_id ` set rows" by simp
    then have "map_of (foldl add_click (add_click acc r) rows) (ac_click_id r)
        = map_of (add_click acc r) (ac_click_id r)"
      by (rule map_of_foldl_add_click_other)
    then show ?thesis using True by (simp add: map_of_add_click)
  next
    case False
    with Cons.prems have "c \<in> set rows" "distinct (map ac_click_id rows)" by auto
    then show ?thesis using Cons.IH by simp
  qed
qed

lemma map_of_clicks_distinct:
  "distinct (map ac_click_id (window_clicks s sd ed)) \<Longrightarrow> c \<in> set (window_clicks s sd ed) \<Longrightarrow>
     map_of (clicks_by_id s sd ed) (ac_click_id c)
       = Some (ac_channel c, ac_campaign_id c, ac_campaign_name c)"
  unfolding clicks_by_id_def window_clicks_def by (rule map_of_foldl_add_click_distinct)

lemma strip_Nil: "strip [] = []"
  by (simp add: strip_def)

lemma click_step_eq:
  "click_step clicks run_id st order =
     (case click_row clicks run_id order of
        None \<Rightarrow> st
      | Some e \<Rightarrow> st\<lparr>cl_session := add_event (cl_session st) e,
                     attributed_order_ids := insert (order_id order) (attributed_order_ids st),
                     cl_count := cl_count st + 1\<rparr>)"
  by (auto simp: click_step_def click_row_def Let_def strip_Nil split: option.splits)

lemma foldl_click_step_session:
  "cl_session (foldl (click_step clicks run_id) st os)
     = foldl add_event (cl_session st) (List.map_filter (click_row clicks run_id) os)"
  by (induction os arbitrary: st)
     (auto simp: click_step_eq List.map_filter_simps split: option.splits)

lemma foldl_click_step_ids:
  "attributed_order_ids (foldl (click_step clicks run_id) st os)
     = attributed_order_ids st \<union> order_id ` {order \<in> set os. click_row clicks run_id order \<noteq> None}"
  by (induction os arbitrary: st)
     (auto simp: click_step_eq split: option.splits)

lemma foldl_click_step_count:
  "cl_count (foldl (click_step clicks run_id) st os)
     = cl_count st + length (List.map_filter (click_row clicks run_id) os)"
  by (induction os arbitrary: st)
     (auto simp: click_step_eq List.map_filter_simps split: option.splits)

lemma map_filter_append: "List.map_filter f (xs @ ys) = List.map_filter f xs @ List.map_filter f ys"
  by (simp add: List.map_filter_def)

lemma click_row_no_clicks: "click_row [] run_id order = None"
  by (simp add: click_row_def split: option.splits)

lemma run_click_id_attribution_eq:
  "run_click_id_attribution s run_id sd ed =
     (s\<lparr>attribution_events := attribution_events s @
           List.map_filter (click_row (clicks_by_id s sd ed) run_id) (window_orders s sd ed)\<rparr>,
      length (List.map_filter (click_row (clicks_by_id s sd ed) run_id) (window_orders s sd ed)),
      order_id ` {order \<in> set (window_orders s sd ed).
                    click_row (clicks_by_id s sd ed) run_id order \<noteq> None})"
proof (cases "clicks_by_id s sd ed = []")
  case True
  have "List.map_filter (click_row [] run_id) (window_orders s sd ed) = []"
    by (simp add: List.map_filter_def click_row_no_clicks)
  with True show ?thesis
    by (simp add: run_click_id_attribution_def click_row_no_clicks)
next
  case False
  let ?c = "clicks_by_id s sd ed"
  let ?sh = "orders_in_window sd ed (raw_shopify_orders s)"
  let ?wo = "orders_in_window sd ed (raw_woocommerce_orders s)"
  let ?st0 = "\<lparr>cl_session = s, attributed_order_ids = {}, cl_count = 0\<rparr>"
  let ?st = "foldl (click_step ?c run_id) (foldl (click_step ?c run_id) ?st0 ?sh) ?wo"
  have r: "run_click_id_attribution s run_id sd ed
      = (cl_session ?st, cl_count ?st, attributed_order_ids ?st)"
    using False by (simp add: run_click_id_attribution_def Let_def)
  have 1: "cl_session ?st = s\<lparr>attribution_events := attribution_events s @
           List.map_filter (click_row ?c run_id) (window_orders s sd ed)\<rparr>"
    by (simp add: foldl_click_step_session foldl_add_event window_orders_def map_filter_append)
  have 2: "cl_count ?st = length (List.map_filter (click_row ?c run_id) (window_orders s sd ed))"
    by (simp add: foldl_click_step_count window_orders_def map_filter_append)
  have 3: "attributed_order_ids ?st = order_id ` {order \<in> set (window_orders s sd ed).
                    click_row ?c run_id order \<noteq> None}"
    by (auto simp: foldl_click_step_ids window_orders_def)
  show ?thesis
    unfolding r 1 2 3 by (rule refl)
qed

lemma set_dict_set: "set (dict_set d k v) \<subseteq> insert (k, v) (set d)"
  by (induction d) (auto split: if_splits)



lemma ev_order_id_click_row: "click_row clicks run_id order = Some e \<Longrightarrow> ev_order_id e = order_id order"
  by (auto simp: click_row_def split: option.splits if_splits)

lemma filter_map_filter_other:
  "k \<notin> order_id ` set os \<Longrightarrow>
     filter (\<lambda>e. ev_order_id e = k) (List.map_filter (click_row clicks run_id) os) = []"
  by (induction os)
     (auto simp: List.map_filter_simps dest: ev_order_id_click_row split: option.splits)

lemma filter_map_filter_distinct:
  "distinct (map order_id os) \<Longrightarrow> order \<in> set os \<Longrightarrow>
     filter (\<lambda>e. ev_order_id e = order_id order) (List.map_filter (click_row clicks run_id) os)
       = (case click_row clicks run_id order of None \<Rightarrow> [] | Some e \<Rightarrow> [e])"
proof (induction os)
  case Nil
  then show ?case by simp
next
  case (Cons x os)
  show ?case
  proof (cases "order = x")
    case True
    with Cons.prems have "order_id x \<notin> order_id ` set os" by simp
    then have "filter (\<lambda>e. ev_order_id e = order_id x)
        (List.map_filter (click_row clicks run_id) os) = []"
      by (rule filter_map_filter_other)
    with True show ?thesis
      by (auto simp: List.map_filter_simps dest: ev_order_id_click_row split: option.splits)
  next
    case False
    with Cons.prems have in_os: "order \<in> set os" and d: "distinct (map order_id os)"
      and ne: "order_id x \<noteq> order_id order"
      by auto
    from ne have "\<And>e. click_row clicks run_id x = Some e \<Longrightarrow> ev_order_id e \<noteq> order_id order"
      by (auto dest: ev_order_id_click_row)
    then show ?thesis
      using Cons.IH[OF d in_os] by (auto simp: List.map_filter_simps split: option.splits)
  qed
qed

lemma events_written_append:
  "events_written s (s\<lparr>attribution_events := attribution_events s @ es\<rparr>) = es"
  by (simp add: events_written_def)

lemma window_orders_events [simp]:
  "window_orders (s\<lparr>attribution_events := es\<rparr>) sd ed = window_orders s sd ed"
  by (simp add: window_orders_def)

lemma set_orders_df:
  "set (orders_df s sd ed (Some ids))
     = frame_row ` {order \<in> set (window_orders s sd ed). order_id order \<notin> ids}"
  by (auto simp: orders_df_def window_orders_def)

lemma of_order_id_frame_row [simp]: "of_order_id (frame_row order) = order_id order"
  by (simp add: frame_row_def)

lemma click_row_None_iff:
  "click_row (clicks_by_id s sd ed) run_id order = None \<longleftrightarrow>
     (case click_id order of
        None \<Rightarrow> True
      | Some cid \<Rightarrow> strip cid = [] \<or> strip cid \<notin> ac_click_id ` set (window_clicks s sd ed)
                    \<or> order_revenue order \<le> 0)"
proof (cases "click_id order")
  case None
  then show ?thesis by (simp add: click_row_def)
next
  case (Some cid)
  show ?thesis
  proof (cases "map_of (clicks_by_id s sd ed) (strip cid)")
    case None
    with Some show ?thesis
      using map_of_clicks_None[of s sd ed "strip cid"] by (simp add: click_row_def)
  next
    case (Some info)
    then have "strip cid \<in> ac_click_id ` set (window_clicks s sd ed)"
      using map_of_clicks_None[of s sd ed "strip cid"] by auto
    with Some \<open>click_id order = Some cid\<close> show ?thesis
      by (cases info) (auto simp: click_row_def)
  qed
qed

text \<open>
  Claim C7.  Take an order of the window, the order identifiers of the window being pairwise
  different.  If its click identifier is absent or, stripped, is the key of no click record of
  the window, or if its revenue (net when available, else gross) is at most zero, then the click
  pass (which is a total function: it has no failing step) writes no row for the order, leaves
  its identifier out of the returned set, and the order is among the rows that \<open>_orders_df\<close>
  hands to the fractional pass when that set is excluded.
\<close>

theorem unmatched_or_unpaid_orders_fall_through:
  assumes "order \<in> set (window_orders s start_date end_date)"
    and "distinct (map order_id (window_orders s start_date end_date))"
    and "(\<forall>cid. click_id order = Some cid
              \<longrightarrow> strip cid \<notin> ac_click_id ` set (window_clicks s start_date end_date))
         \<or> order_revenue order \<le> 0"
  shows "\<exists>s1 n ids. run_click_id_attribution s run_id start_date end_date = (s1, n, ids)
      \<and> filter (\<lambda>e. ev_order_id e = order_id order) (events_written s s1) = []
      \<and> order_id order \<notin> ids
      \<and> frame_row order \<in> set (orders_df s1 start_date end_date (Some ids))"
proof -
  let ?c = "clicks_by_id s start_date end_date"
  let ?os = "window_orders s start_date end_date"
  let ?es = "List.map_filter (click_row ?c run_id) ?os"
  let ?s1 = "s\<lparr>attribution_events := attribution_events s @ ?es\<rparr>"
  let ?ids = "order_id ` {x \<in> set ?os. click_row ?c run_id x \<noteq> None}"
  have none: "click_row ?c run_id order = None"
    using assms(3) by (auto simp: click_row_None_iff split: option.splits)
  have r: "run_click_id_attribution s run_id start_date end_date = (?s1, length ?es, ?ids)"
    by (rule run_click_id_attribution_eq)
  have 1: "filter (\<lambda>e. ev_order_id e = order_id order) (events_written s ?s1) = []"
    using filter_map_filter_distinct[OF assms(2) assms(1), of ?c run_id] none
    by (simp add: events_written_append)
  have 2: "order_id order \<notin> ?ids"
  proof
    assume "order_id order \<in> ?ids"
    then obtain x where x: "x \<in> set ?os" "click_row ?c run_id x \<noteq> None"
      "order_id x = order_id order"
      by auto
    from assms(2) x(1) assms(1) x(3) have "x = order"
      by (auto simp: distinct_map dest: inj_onD)
    with x(2) none show False by simp
  qed
  have 3: "frame_row order \<in> set (orders_df ?s1 start_date end_date (Some ?ids))"
    using assms(1) 2 by (simp only: set_orders_df window_orders_events) blast
  from r 1 2 3 show ?thesis by blast
qed


lemma click_session_orders:
  "window_orders click_session 0 10 = [order_1001, order_1002, order_w1]"
  by (simp add: window_orders_def orders_in_window_def in_window_def click_session_def
      empty_session_def order_1001_def order_1002_def order_w1_def)

lemma click_session_clicks:
  "window_clicks click_session 0 10 = [\<lparr>ac_click_id = ''gclid-1'', ac_date = 1,
     ac_campaign_id = ''cmp-1'', ac_campaign_name = Some ''Brand'', ac_channel = ''google''\<rparr>]"
  by (simp add: window_clicks_def in_window_def click_session_def empty_session_def)

lemma strip_examples:
  "strip padded_gclid = ''gclid-1''" "strip ''gclid-1'' = ''gclid-1''"
  "strip ''unknown'' = ''unknown''"
  by (simp_all add: strip_def is_space_def padded_gclid_def)

text \<open>
  Order 1002 carries a click identifier that no click record has, order w-1 has net revenue 0:
  neither is credited by the click pass, both reach the fractional pass.
\<close>

theorem unmatched_or_unpaid_orders_fall_through_witness:
  "\<exists>s1 n ids. run_click_id_attribution click_session ''run-1'' 0 10 = (s1, n, ids)
      \<and> filter (\<lambda>e. ev_order_id e = ''1002'') (events_written click_session s1) = []
      \<and> ''1002'' \<notin> ids
      \<and> frame_row order_1002 \<in> set (orders_df s1 0 10 (Some ids))
      \<and> filter (\<lambda>e. ev_order_id e = ''w-1'') (events_written click_session s1) = []
      \<and> ''w-1'' \<notin> ids
      \<and> frame_row order_w1 \<in> set (orders_df s1 0 10 (Some ids))"
proof -
  have d: "distinct (map order_id (window_orders click_session 0 10))"
    by (simp add: click_session_orders order_1001_def order_1002_def order_w1_def)
  have m2: "order_1002 \<in> set (window_orders click_session 0 10)"
    and m3: "order_w1 \<in> set (window_orders click_session 0 10)"
    by (simp_all add: click_session_orders)
  have h2: "(\<forall>cid. click_id order_1002 = Some cid
              \<longrightarrow> strip cid \<notin> ac_click_id ` set (window_clicks click_session 0 10))
         \<or> order_revenue order_1002 \<le> 0"
    by (simp add: click_session_clicks order_1002_def strip_examples)
  have h3: "(\<forall>cid. click_id order_w1 = Some cid
              \<longrightarrow> strip cid \<notin> ac_click_id ` set (window_clicks click_session 0 10))
         \<or> order_revenue order_w1 \<le> 0"
    by (simp add: order_w1_def order_revenue_def)
  from unmatched_or_unpaid_orders_fall_through [OF m2 d h2, of "''run-1''"]
    unmatched_or_unpaid_orders_fall_through [OF m3 d h3, of "''run-1''"]
  show ?thesis
    by (auto simp: order_1002_def order_w1_def)
qed



lemma sum_list_filter_nonzero:
  fixes ws :: "(string \<times> real) list"
  shows "sum_list (map snd (filter (\<lambda>p. snd p \<noteq> 0) ws)) = sum_list (map snd ws)"
  by (induction ws) auto



lemma allocate_order_id: "a \<in> set (allocate_order ws order) \<Longrightarrow> al_order_id a = of_order_id order"
  by (auto simp: allocate_order_def)







lemma orders_df_events [simp]:
  "orders_df (s\<lparr>attribution_events := es\<rparr>) sd ed ex = orders_df s sd ed ex"
  by (simp add: orders_df_def)

lemma orders_df_window:
  "orders_df s sd ed (Some ids)
     = map frame_row (filter (\<lambda>order. order_id order \<notin> ids) (window_orders s sd ed))"
  by (simp add: orders_df_def window_orders_def)




lemma daily_spend_by_channel_events [simp]:
  "daily_spend_by_channel (s\<lparr>attribution_events := es\<rparr>) sd ed = daily_spend_by_channel s sd ed"
  by (simp add: daily_spend_by_channel_def)

lemma allocation_weights_eq:
  "allocation_weights ds cw =
     Inr (if spending_channels ds = [] then
            map (\<lambda>ch. (ch, 1 / real (length DEFAULT_CHANNELS))) DEFAULT_CHANNELS
          else
            map (\<lambda>(ch, v). (ch, v / or_one (sum_list (map snd (unnormalised_weights ds cw)))))
              (unnormalised_weights ds cw))"
  by (simp add: allocation_weights_def Let_def normalise_nonzero or_one_nonzero)


lemma core_attribution_logic_eq:
  "core_attribution_logic re s run_id sd ed cw seqs m ex =
     (if orders_df s sd ed ex = [] then Inr (s, 0, [], [])
      else
        (case fractional_allocate (orders_df s sd ed ex) (daily_spend_by_channel s sd ed)
                (effective_weights re cw seqs
                   (attribution_channels (daily_spend_by_channel s sd ed)) m) of
           Inl e \<Rightarrow> Inl e
         | Inr al \<Rightarrow>
             Inr (s\<lparr>attribution_events :=
                      attribution_events s @ map (event_of_allocation run_id) al\<rparr>,
                  length al,
                  map (\<lambda>(ch, v). (ch, v / or_one (sum_list (map snd (foldl add_allocated [] al)))))
                    (map (\<lambda>ch. (ch, dict_get (foldl add_allocated [] al) ch 0))
                       (attribution_channels (daily_spend_by_channel s sd ed))),
                  al)))"
  by (simp add: core_attribution_logic_def Let_def normalise_nonzero or_one_nonzero
      foldl_add_event split: sum.splits)









lemma click_session_spending:
  "spending_channels (daily_spend_by_channel click_session 0 10)
     = [(''meta'', 600), (''google'', 400)]"
  by (simp add: spending_channels_def daily_spend_by_channel_def channel_spend_rows_def
      ads_in_window_def in_window_def click_session_def empty_session_def add_channel_spend_def
      dict_get_def)

lemma click_session_channels:
  "attribution_channels (daily_spend_by_channel click_session 0 10) = [''meta'', ''google'']"
  by (simp add: attribution_channels_def daily_spend_by_channel_def channel_spend_rows_def
      ads_in_window_def in_window_def click_session_def empty_session_def unique_def)

lemma click_session_weights:
  "allocation_weights (daily_spend_by_channel click_session 0 10) None
     = Inr [(''meta'', 3 / 5), (''google'', 2 / 5)]"
  by (simp add: allocation_weights_eq click_session_spending unnormalised_weights_def
      or_one_def)







lemma effective_weights_below:
  "int (length sequences) < m \<Longrightarrow> effective_weights re cw (Some sequences) chans m = cw"
  by (simp add: effective_weights_def markov_credits_def)

lemma effective_weights_active:
  "m \<le> int (length sequences) \<Longrightarrow>
     effective_weights re cw (Some sequences) chans m = Some (re sequences chans)"
  by (simp add: effective_weights_def markov_credits_def)

text \<open>
  Claim C8.  \<open>markov_credits\<close> returns an override exactly when there are at least
  \<open>min_sequences\<close> sequences (default 10).  At or above the threshold the override replaces
  the weights: \<open>_core_attribution_logic\<close> with the sequences behaves as it does without
  sequences for the removal-effect credits as supplied weights, and what it allocates is what
  \<open>fractional_allocate\<close> gives for those credits.  Below the threshold \<open>markov_credits\<close>
  returns \<open>None\<close>, the weights handed to the allocation are the caller's \<open>channel_weights\<close>
  unchanged, the whole of \<open>_core_attribution_logic\<close> behaves as without sequences, and what it
  allocates is what \<open>fractional_allocate\<close> gives for those weights.  Without sequences the
  weights are the caller's.
\<close>

theorem markov_needs_min_sequences:
  "(markov_credits removal_effect sequences chans min_sequences \<noteq> None
      \<longleftrightarrow> min_sequences \<le> int (length sequences))
   \<and> (min_sequences \<le> int (length sequences) \<longrightarrow>
        effective_weights removal_effect channel_weights (Some sequences) chans min_sequences
          = Some (removal_effect sequences chans))
   \<and> (min_sequences \<le> int (length sequences) \<longrightarrow>
        core_attribution_logic removal_effect s run_id start_date end_date channel_weights
              (Some sequences) min_sequences order_ids_to_exclude
            = core_attribution_logic removal_effect s run_id start_date end_date
                (Some (removal_effect sequences
                   (attribution_channels (daily_spend_by_channel s start_date end_date))))
                None min_sequences order_ids_to_exclude
        \<and> (orders_df s start_date end_date order_ids_to_exclude \<noteq> [] \<longrightarrow>
             (case core_attribution_logic removal_effect s run_id start_date end_date
                     channel_weights (Some sequences) min_sequences order_ids_to_exclude of
                Inl e \<Rightarrow> Inl e
              | Inr (s', n, allocations, allocated) \<Rightarrow> Inr allocated)
             = fractional_allocate (orders_df s start_date end_date order_ids_to_exclude)
                 (daily_spend_by_channel s start_date end_date)
                 (Some (removal_effect sequences
                    (attribution_channels (daily_spend_by_channel s start_date end_date))))))
   \<and> (int (length sequences) < min_sequences \<longrightarrow>
        markov_credits removal_effect sequences chans min_sequences = None
        \<and> effective_weights removal_effect channel_weights (Some sequences) chans min_sequences
            = channel_weights
        \<and> core_attribution_logic removal_effect s run_id start_date end_date channel_weights
              (Some sequences) min_sequences order_ids_to_exclude
            = core_attribution_logic removal_effect s run_id start_date end_date channel_weights
                None min_sequences order_ids_to_exclude
        \<and> (orders_df s start_date end_date order_ids_to_exclude \<noteq> [] \<longrightarrow>
             (case core_attribution_logic removal_effect s run_id start_date end_date
                     channel_weights (Some sequences) min_sequences order_ids_to_exclude of
                Inl e \<Rightarrow> Inl e
              | Inr (s', n, allocations, allocated) \<Rightarrow> Inr allocated)
             = fractional_allocate (orders_df s start_date end_date order_ids_to_exclude)
                 (daily_spend_by_channel s start_date end_date) channel_weights))
   \<and> effective_weights removal_effect channel_weights None chans min_sequences = channel_weights
   \<and> DEFAULT_MIN_SEQUENCES = 10"
proof -
  let ?ds = "daily_spend_by_channel s start_date end_date"
  let ?orders = "orders_df s start_date end_date order_ids_to_exclude"
  let ?proj = "\<lambda>r :: error + (session \<times> nat \<times> (string, real) dict \<times> allocation list).
      (case r of Inl e \<Rightarrow> Inl e | Inr (s', n, allocations, allocated) \<Rightarrow> Inr allocated)"
  have n: "effective_weights removal_effect w None c min_sequences = w" for w c
    by (simp add: effective_weights_def)
  have proj: "?proj (core_attribution_logic removal_effect s run_id start_date end_date w q
        min_sequences order_ids_to_exclude)
      = fractional_allocate ?orders ?ds
          (effective_weights removal_effect w q (attribution_channels ?ds) min_sequences)"
    if "?orders \<noteq> []" for w q
    using that by (simp add: core_attribution_logic_eq split: sum.splits)
  have c1: "markov_credits removal_effect sequences chans min_sequences \<noteq> None
      \<longleftrightarrow> min_sequences \<le> int (length sequences)"
    by (simp add: markov_credits_def)
  have c2: "min_sequences \<le> int (length sequences) \<longrightarrow>
        effective_weights removal_effect channel_weights (Some sequences) chans min_sequences
          = Some (removal_effect sequences chans)"
    by (simp add: effective_weights_active)
  have c3: "min_sequences \<le> int (length sequences) \<longrightarrow>
        core_attribution_logic removal_effect s run_id start_date end_date channel_weights
              (Some sequences) min_sequences order_ids_to_exclude
            = core_attribution_logic removal_effect s run_id start_date end_date
                (Some (removal_effect sequences (attribution_channels ?ds)))
                None min_sequences order_ids_to_exclude
        \<and> (?orders \<noteq> [] \<longrightarrow>
             ?proj (core_attribution_logic removal_effect s run_id start_date end_date
                     channel_weights (Some sequences) min_sequences order_ids_to_exclude)
             = fractional_allocate ?orders ?ds
                 (Some (removal_effect sequences (attribution_channels ?ds))))"
  proof (intro impI conjI)
    assume a: "min_sequences \<le> int (length sequences)"
    then show "core_attribution_logic removal_effect s run_id start_date end_date channel_weights
              (Some sequences) min_sequences order_ids_to_exclude
            = core_attribution_logic removal_effect s run_id start_date end_date
                (Some (removal_effect sequences (attribution_channels ?ds)))
                None min_sequences order_ids_to_exclude"
      by (simp only: core_attribution_logic_eq effective_weights_active n)
    assume o: "?orders \<noteq> []"
    from a show "?proj (core_attribution_logic removal_effect s run_id start_date end_date
                     channel_weights (Some sequences) min_sequences order_ids_to_exclude)
             = fractional_allocate ?orders ?ds
                 (Some (removal_effect sequences (attribution_channels ?ds)))"
      by (simp only: proj[OF o] effective_weights_active)
  qed
  have c4: "int (length sequences) < min_sequences \<longrightarrow>
        markov_credits removal_effect sequences chans min_sequences = None
        \<and> effective_weights removal_effect channel_weights (Some sequences) chans min_sequences
            = channel_weights
        \<and> core_attribution_logic removal_effect s run_id start_date end_date channel_weights
              (Some sequences) min_sequences order_ids_to_exclude
            = core_attribution_logic removal_effect s run_id start_date end_date channel_weights
                None min_sequences order_ids_to_exclude
        \<and> (?orders \<noteq> [] \<longrightarrow>
             ?proj (core_attribution_logic removal_effect s run_id start_date end_date
                     channel_weights (Some sequences) min_sequences order_ids_to_exclude)
             = fractional_allocate ?orders ?ds channel_weights)"
  proof (intro impI conjI)
    assume b: "int (length sequences) < min_sequences"
    then show "markov_credits removal_effect sequences chans min_sequences = None"
      by (simp add: markov_credits_def)
    from b show "effective_weights removal_effect channel_weights (Some sequences) chans
        min_sequences = channel_weights"
      by (rule effective_weights_below)
    from b show "core_attribution_logic removal_effect s run_id start_date end_date
              channel_weights (Some sequences) min_sequences order_ids_to_exclude
            = core_attribution_logic removal_effect s run_id start_date end_date channel_weights
                None min_sequences order_ids_to_exclude"
      by (simp only: core_attribution_logic_eq effective_weights_below n)
    assume o: "?orders \<noteq> []"
    from b show "?proj (core_attribution_logic removal_effect s run_id start_date end_date
                     channel_weights (Some sequences) min_sequences order_ids_to_exclude)
             = fractional_allocate ?orders ?ds channel_weights"
      by (simp only: proj[OF o] effective_weights_below)
  qed
  have c5: "effective_weights removal_effect channel_weights None chans min_sequences
      = channel_weights"
    by (rule n)
  have c6: "DEFAULT_MIN_SEQUENCES = 10"
    by (simp add: DEFAULT_MIN_SEQUENCES_def)
  from c1 c2 c3 c4 c5 c6 show ?thesis
    by (intro conjI)
qed

lemma click_session_remaining_orders:
  "orders_df click_session 0 10 (Some {''1001''})
     = [\<lparr>of_order_id = ''1002'', of_order_date = 2, of_revenue = 100\<rparr>,
        \<lparr>of_order_id = ''w-1'', of_order_date = 3, of_revenue = 0\<rparr>]"
  by (simp add: orders_df_window click_session_orders frame_row_def order_1001_def
      order_1002_def order_w1_def order_revenue_def)

lemma click_session_half_weights:
  "allocation_weights (daily_spend_by_channel click_session 0 10)
       (Some [(''meta'', 1 / 2), (''google'', 1 / 2)])
     = Inr [(''meta'', 1 / 2), (''google'', 1 / 2)]"
  by (simp add: allocation_weights_eq click_session_spending unnormalised_weights_def
      or_one_def dict_get_def)

text \<open>
  Nine sequences with the default threshold give no override and the run allocates by spend
  share (3/5 and 2/5, 60 and 40 of order 1002); ten sequences give the override and the run
  allocates by the credits (1/2 and 1/2, 50 and 50).
\<close>

theorem markov_needs_min_sequences_witness:
  "markov_credits uniform_credits (replicate 9 [''meta'', ''google'']) [''meta'', ''google'']
       DEFAULT_MIN_SEQUENCES = None
   \<and> markov_credits uniform_credits (replicate 10 [''meta'', ''google'']) [''meta'', ''google'']
       DEFAULT_MIN_SEQUENCES = Some [(''meta'', 1 / 2), (''google'', 1 / 2)]
   \<and> core_attribution_logic uniform_credits click_session ''run-1'' 0 10 None
              (Some (replicate 9 [''meta'', ''google''])) DEFAULT_MIN_SEQUENCES (Some {''1001''})
        = core_attribution_logic uniform_credits click_session ''run-1'' 0 10 None
                None DEFAULT_MIN_SEQUENCES (Some {''1001''})
   \<and> (case core_attribution_logic uniform_credits click_session ''run-1'' 0 10 None
              (Some (replicate 9 [''meta'', ''google''])) DEFAULT_MIN_SEQUENCES (Some {''1001''}) of
         Inl e \<Rightarrow> Inl e
       | Inr (s', n, allocations, allocated) \<Rightarrow> Inr allocated)
       = Inr [\<lparr>al_order_id = ''1002'', al_date = 2, al_channel = ''meta'', al_weight = 3 / 5,
                al_revenue = 60\<rparr>,
              \<lparr>al_order_id = ''1002'', al_date = 2, al_channel = ''google'', al_weight = 2 / 5,
                al_revenue = 40\<rparr>,
              \<lparr>al_order_id = ''w-1'', al_date = 3, al_channel = ''meta'', al_weight = 3 / 5,
                al_revenue = 0\<rparr>,
              \<lparr>al_order_id = ''w-1'', al_date = 3, al_channel = ''google'', al_weight = 2 / 5,
                al_revenue = 0\<rparr>]
   \<and> core_attribution_logic uniform_credits click_session ''run-1'' 0 10 None
              (Some (replicate 10 [''meta'', ''google''])) DEFAULT_MIN_SEQUENCES (Some {''1001''})
        = core_attribution_logic uniform_credits click_session ''run-1'' 0 10
                (Some [(''meta'', 1 / 2), (''google'', 1 / 2)]) None DEFAULT_MIN_SEQUENCES
                (Some {''1001''})
   \<and> (case core_attribution_logic uniform_credits click_session ''run-1'' 0 10 None
              (Some (replicate 10 [''meta'', ''google''])) DEFAULT_MIN_SEQUENCES (Some {''1001''}) of
         Inl e \<Rightarrow> Inl e
       | Inr (s', n, allocations, allocated) \<Rightarrow> Inr allocated)
       = Inr [\<lparr>al_order_id = ''1002'', al_date = 2, al_channel = ''meta'', al_weight = 1 / 2,
                al_revenue = 50\<rparr>,
              \<lparr>al_order_id = ''1002'', al_date = 2, al_channel = ''google'', al_weight = 1 / 2,
                al_revenue = 50\<rparr>,
              \<lparr>al_order_id = ''w-1'', al_date = 3, al_channel = ''meta'', al_weight = 1 / 2,
                al_revenue = 0\<rparr>,
              \<lparr>al_order_id = ''w-1'', al_date = 3, al_channel = ''google'', al_weight = 1 / 2,
                al_revenue = 0\<rparr>]"
proof -
  let ?ds = "daily_spend_by_channel click_session 0 10"
  let ?orders = "orders_df click_session 0 10 (Some {''1001''})"
  have b: "int (length (replicate 9 [''meta'', ''google''])) < DEFAULT_MIN_SEQUENCES"
    by (simp add: DEFAULT_MIN_SEQUENCES_def)
  have a: "DEFAULT_MIN_SEQUENCES \<le> int (length (replicate 10 [''meta'', ''google'']))"
    by (simp add: DEFAULT_MIN_SEQUENCES_def)
  have o: "?orders \<noteq> []"
    by (simp add: click_session_remaining_orders)
  have u: "uniform_credits (replicate 10 [''meta'', ''google'']) (attribution_channels ?ds)
      = [(''meta'', 1 / 2), (''google'', 1 / 2)]"
    by (simp add: click_session_channels uniform_credits_def)
  have m: "markov_credits uniform_credits (replicate 10 [''meta'', ''google''])
      [''meta'', ''google''] DEFAULT_MIN_SEQUENCES = Some [(''meta'', 1 / 2), (''google'', 1 / 2)]"
    by (simp add: markov_credits_def DEFAULT_MIN_SEQUENCES_def uniform_credits_def)
  have f9: "fractional_allocate ?orders ?ds None
      = Inr [\<lparr>al_order_id = ''1002'', al_date = 2, al_channel = ''meta'', al_weight = 3 / 5,
                al_revenue = 60\<rparr>,
              \<lparr>al_order_id = ''1002'', al_date = 2, al_channel = ''google'', al_weight = 2 / 5,
                al_revenue = 40\<rparr>,
              \<lparr>al_order_id = ''w-1'', al_date = 3, al_channel = ''meta'', al_weight = 3 / 5,
                al_revenue = 0\<rparr>,
              \<lparr>al_order_id = ''w-1'', al_date = 3, al_channel = ''google'', al_weight = 2 / 5,
                al_revenue = 0\<rparr>]"
    by (simp add: fractional_allocate_def click_session_weights click_session_remaining_orders
        allocate_order_def)
  have f10: "fractional_allocate ?orders ?ds (Some [(''meta'', 1 / 2), (''google'', 1 / 2)])
      = Inr [\<lparr>al_order_id = ''1002'', al_date = 2, al_channel = ''meta'', al_weight = 1 / 2,
                al_revenue = 50\<rparr>,
              \<lparr>al_order_id = ''1002'', al_date = 2, al_channel = ''google'', al_weight = 1 / 2,
                al_revenue = 50\<rparr>,
              \<lparr>al_order_id = ''w-1'', al_date = 3, al_channel = ''meta'', al_weight = 1 / 2,
                al_revenue = 0\<rparr>,
              \<lparr>al_order_id = ''w-1'', al_date = 3, al_channel = ''google'', al_weight = 1 / 2,
                al_revenue = 0\<rparr>]"
    by (simp add: fractional_allocate_def click_session_half_weights
        click_session_remaining_orders allocate_order_def)
  note below = markov_needs_min_sequences [of uniform_credits "replicate 9 [''meta'', ''google'']"
      "[''meta'', ''google'']" DEFAULT_MIN_SEQUENCES None click_session "''run-1''" 0 10
      "Some {''1001''}"]
  note active = markov_needs_min_sequences [of uniform_credits
      "replicate 10 [''meta'', ''google'']" "[''meta'', ''google'']" DEFAULT_MIN_SEQUENCES None
      click_session "''run-1''" 0 10 "Some {''1001''}"]
  from below b o have b1: "markov_credits uniform_credits (replicate 9 [''meta'', ''google''])
       [''meta'', ''google''] DEFAULT_MIN_SEQUENCES = None"
    and b2: "core_attribution_logic uniform_credits click_session ''run-1'' 0 10 None
              (Some (replicate 9 [''meta'', ''google''])) DEFAULT_MIN_SEQUENCES (Some {''1001''})
        = core_attribution_logic uniform_credits click_session ''run-1'' 0 10 None
                None DEFAULT_MIN_SEQUENCES (Some {''1001''})"
    and b3: "(case core_attribution_logic uniform_credits click_session ''run-1'' 0 10 None
              (Some (replicate 9 [''meta'', ''google''])) DEFAULT_MIN_SEQUENCES (Some {''1001''}) of
         Inl e \<Rightarrow> Inl e
       | Inr (s', n, allocations, allocated) \<Rightarrow> Inr allocated)
       = fractional_allocate ?orders ?ds None"
    by blast+
  from active a o have a2: "core_attribution_logic uniform_credits click_session ''run-1'' 0 10
          None (Some (replicate 10 [''meta'', ''google''])) DEFAULT_MIN_SEQUENCES
          (Some {''1001''})
        = core_attribution_logic uniform_credits click_session ''run-1'' 0 10
            (Some (uniform_credits (replicate 10 [''meta'', ''google''])
               (attribution_channels ?ds))) None DEFAULT_MIN_SEQUENCES (Some {''1001''})"
    and a3: "(case core_attribution_logic uniform_credits click_session ''run-1'' 0 10 None
              (Some (replicate 10 [''meta'', ''google''])) DEFAULT_MIN_SEQUENCES (Some {''1001''}) of
         Inl e \<Rightarrow> Inl e
       | Inr (s', n, allocations, allocated) \<Rightarrow> Inr allocated)
       = fractional_allocate ?orders ?ds
           (Some (uniform_credits (replicate 10 [''meta'', ''google''])
              (attribution_channels ?ds)))"
    by blast+
  from b1 m b2 b3 a2 a3 show ?thesis
    unfolding u f9 f10 by (intro conjI)
qed

lemma cancelling_contributions_any_response:
  "mmm_contribution_share resp cancelling_session
       (spend_by_channel cancelling_session 0 10) None half_life =
     Inr ([(''meta'', 2 * resp 100 half_life), (''google'', - 2 * resp 100 half_life)],
          [(''meta'', 2 * resp 100 half_life), (''google'', - 2 * resp 100 half_life)])"
proof -
  have rows: "mmm_rows cancelling_session None \<noteq> []"
    by (simp add: mmm_rows_def cancelling_session_def empty_session_def truthy_def)
  have c: "contribution_of resp [(''meta'', 100), (''google'', 100)] half_life
      [(''meta'', 2), (''google'', -2)]
        = [(''meta'', 2 * resp 100 half_life), (''google'', - 2 * resp 100 half_life)]"
    by (simp add: contribution_of_def add_contribution_def dict_get_def)
  show ?thesis
    using rows
    by (simp add: mmm_contribution_share_def Let_def spend_cancelling rows_cancelling c or_one_def
        py_div_def)
qed

lemma values_dict_set: "snd ` set (dict_set d k v) \<subseteq> insert v (snd ` set d)"
proof
  fix x assume "x \<in> snd ` set (dict_set d k v)"
  then obtain p where p: "p \<in> set (dict_set d k v)" "x = snd p" by blast
  with set_dict_set[of d k v] have "p = (k, v) \<or> p \<in> set d" by blast
  with p(2) show "x \<in> insert v (snd ` set d)" by auto
qed

lemma dict_get_nonneg:
  fixes d :: "(string, real) dict"
  assumes "\<forall>v \<in> snd ` set d. 0 \<le> v"
  shows "0 \<le> dict_get d k 0"
proof (cases "map_of d k")
  case None
  then show ?thesis by (simp add: dict_get_def)
next
  case (Some v)
  then have "(k, v) \<in> set d" by (rule map_of_SomeD)
  then have "v \<in> snd ` set d" by force
  with assms have "0 \<le> v" by blast
  with Some show ?thesis by (simp add: dict_get_def)
qed

lemma add_channel_spend_nonneg:
  assumes "\<forall>v \<in> snd ` set d. 0 \<le> v" "0 \<le> sp_spend r"
  shows "\<forall>v \<in> snd ` set (add_channel_spend d r). 0 \<le> v"
proof
  fix v assume "v \<in> snd ` set (add_channel_spend d r)"
  then have "v \<in> insert (dict_get d (sp_channel r) 0 + sp_spend r) (snd ` set d)"
    using values_dict_set[of d "sp_channel r" "dict_get d (sp_channel r) 0 + sp_spend r"]
    unfolding add_channel_spend_def by (rule subsetD[rotated])
  then have "v = dict_get d (sp_channel r) 0 + sp_spend r \<or> v \<in> snd ` set d"
    by simp
  then show "0 \<le> v"
  proof
    assume "v = dict_get d (sp_channel r) 0 + sp_spend r"
    with assms(2) dict_get_nonneg[OF assms(1), of "sp_channel r"] show ?thesis by simp
  next
    assume "v \<in> snd ` set d"
    with assms(1) show ?thesis by blast
  qed
qed

lemma foldl_add_channel_spend_nonneg:
  "\<forall>v \<in> snd ` set d. 0 \<le> v \<Longrightarrow> \<forall>r \<in> set rows. 0 \<le> sp_spend r \<Longrightarrow>
     \<forall>v \<in> snd ` set (foldl add_channel_spend d rows). 0 \<le> v"
proof (induction rows arbitrary: d)
  case Nil
  then show ?case by simp
next
  case (Cons r rows)
  from Cons.prems(2) have r: "0 \<le> sp_spend r" and rest: "\<forall>x \<in> set rows. 0 \<le> sp_spend x"
    by simp_all
  from Cons.prems(1) r have "\<forall>v \<in> snd ` set (add_channel_spend d r). 0 \<le> v"
    by (rule add_channel_spend_nonneg)
  from this rest
  have "\<forall>v \<in> snd ` set (foldl add_channel_spend (add_channel_spend d r) rows). 0 \<le> v"
    by (rule Cons.IH)
  then show ?case by (simp only: foldl_Cons)
qed

lemma sum_list_pos_nonempty:
  fixes xs :: "real list"
  assumes "xs \<noteq> []" "\<forall>x \<in> set xs. 0 < x"
  shows "0 < sum_list xs"
  using assms
proof (induction xs)
  case Nil
  then show ?case by simp
next
  case (Cons x xs)
  show ?case
  proof (cases "xs = []")
    case True
    with Cons.prems show ?thesis by simp
  next
    case False
    with Cons have "0 < sum_list xs" by simp
    moreover from Cons.prems have "0 < x" by simp
    ultimately show ?thesis by simp
  qed
qed

lemma spend_share_normalisable:
  assumes "\<forall>r \<in> set daily_spend. 0 \<le> sp_spend r"
  shows "normalisable daily_spend None"
proof (cases "spending_channels daily_spend = []")
  case True
  then show ?thesis by (simp add: normalisable_def)
next
  case False
  let ?totals = "foldl add_channel_spend [] daily_spend"
  have "\<forall>v \<in> snd ` set ?totals. 0 \<le> v"
    using assms by (intro foldl_add_channel_spend_nonneg) simp_all
  then have "\<forall>p \<in> set ?totals. 0 \<le> snd p"
    by simp
  then have "\<forall>p \<in> set (spending_channels daily_spend). 0 < snd p"
    by (simp add: less_le spending_channels_def)
  then have "\<forall>x \<in> set (map snd (spending_channels daily_spend)). 0 < x"
    by simp
  moreover have "map snd (spending_channels daily_spend) \<noteq> []" using False by simp
  ultimately have "0 < sum_list (map snd (spending_channels daily_spend))"
    by (intro sum_list_pos_nonempty)
  then show ?thesis
    by (simp add: normalisable_def unnormalised_weights_def)
qed


section \<open>Properties of the transforms and of the MMM run\<close>

lemma length_adstock_from: "length (adstock_from d c xs) = length xs"
  by (induction xs arbitrary: c) simp_all

lemma nth_adstock_from:
  "t < length xs \<Longrightarrow>
     adstock_from d c xs ! t = xs ! t + d * (if t = 0 then c else adstock_from d c xs ! (t - 1))"
proof (induction xs arbitrary: c t)
  case Nil
  then show ?case by simp
next
  case (Cons x xs)
  show ?case
  proof (cases t)
    case 0
    then show ?thesis by simp
  next
    case (Suc k)
    with Cons.prems have k: "k < length xs" by simp
    from Cons.IH[OF k, of "x + d * c"] Suc show ?thesis
      by (cases k) simp_all
  qed
qed

lemma adstock_from_constant:
  "t < N \<Longrightarrow> adstock_from d c (replicate N S) ! t = S * (\<Sum>k\<le>t. d ^ k) + d ^ (Suc t) * c"
proof (induction N arbitrary: c t)
  case 0
  then show ?case by simp
next
  case (Suc N)
  show ?case
  proof (cases t)
    case 0
    then show ?thesis by simp
  next
    case (Suc k)
    with Suc.prems have k: "k < N" by simp
    from Suc.IH[OF k, of "S + d * c"] Suc show ?thesis
      by (simp add: algebra_simps)
  qed
qed

lemma geometric_closed:
  fixes d :: real
  assumes "d \<noteq> 1"
  shows "(\<Sum>k\<le>t. d ^ k) = (1 - d ^ Suc t) / (1 - d)"
proof -
  have "(\<Sum>k\<le>t. d ^ k) = (\<Sum>k<Suc t. d ^ k)"
    by (simp add: lessThan_Suc_atMost)
  also have "\<dots> = (d ^ Suc t - 1) / (d - 1)"
    using assms by (rule geometric_sum)
  also have "\<dots> = (1 - d ^ Suc t) / (1 - d)"
    by (metis minus_diff_eq minus_divide_divide)
  finally show ?thesis .
qed

lemma adstock_decay_bounds:
  assumes "0 < h"
  shows "0 < adstock_decay h" "adstock_decay h < 1"
proof -
  show "0 < adstock_decay h" by (simp add: adstock_decay_def)
  have "ln (1 / 2 :: real) < 0" by simp
  then have "ln (1 / 2 :: real) / h < 0"
    using assms by (rule divide_neg_pos)
  then have "exp (1 / h * ln (1 / 2 :: real)) < 1" by simp
  then show "adstock_decay h < 1" by (simp add: adstock_decay_def powr_def)
qed

lemma adstock_constant_closed:
  assumes "0 < h" "t < N"
  shows "adstock_transform (replicate N S) h ! t
           = S * (1 - adstock_decay h ^ Suc t) / (1 - adstock_decay h)"
proof -
  have "adstock_decay h \<noteq> 1" using adstock_decay_bounds(2)[OF assms(1)] by simp
  then show ?thesis
    using adstock_from_constant[OF assms(2), of "adstock_decay h" 0 S]
    by (simp add: adstock_transform_def geometric_closed)
qed

lemma adstock_constant_limit:
  assumes "0 < h"
  shows "(\<lambda>N. adstock_transform (replicate (Suc N) S) h ! N)
           \<longlonglongrightarrow> S / (1 - adstock_decay h)"
proof -
  let ?d = "adstock_decay h"
  have b: "\<bar>?d\<bar> < 1" using adstock_decay_bounds[OF assms] by simp
  then have "(\<lambda>N. ?d ^ N) \<longlonglongrightarrow> 0"
    by (simp add: LIMSEQ_realpow_zero adstock_decay_bounds[OF assms] less_imp_le)
  then have "(\<lambda>N. ?d ^ Suc N) \<longlonglongrightarrow> 0"
    by (rule LIMSEQ_Suc)
  then have "(\<lambda>N. S * (1 - ?d ^ Suc N) / (1 - ?d)) \<longlonglongrightarrow> S * (1 - 0) / (1 - ?d)"
    by (intro tendsto_intros) (use b in auto)
  moreover have "adstock_transform (replicate (Suc N) S) h ! N = S * (1 - ?d ^ Suc N) / (1 - ?d)" for N
    by (rule adstock_constant_closed[OF assms]) simp
  ultimately show ?thesis by simp
qed

text \<open>
  Claim C9.  \<open>run_mmm\<close> transforms every channel's column on its own, adstock first.  The
  adstock of a series has the length of the series and satisfies
  \<open>adstocked[t] = spend[t] + decay \<times> adstocked[t-1]\<close> (nothing is carried into the first day)
  with \<open>decay = 0.5^(1/half_life)\<close>.  For a positive half-life and constant spend \<open>S\<close> over
  \<open>N\<close> days the value on the last day is \<open>S (1 - decay^N) / (1 - decay)\<close>, and it converges to
  \<open>S / (1 - 0.5^(1/half_life))\<close> as the number of days grows.
\<close>

theorem adstock_recurrence_and_limit:
  "length (feature_columns spend_matrix half_life) = length spend_matrix
   \<and> (\<forall>j < length spend_matrix.
          feature_columns spend_matrix half_life ! j
            = saturation_log (adstock_transform (spend_matrix ! j) half_life))
   \<and> length (adstock_transform spend half_life) = length spend
   \<and> (\<forall>t < length spend.
          adstock_transform spend half_life ! t
            = spend ! t + adstock_decay half_life
                * (if t = 0 then 0 else adstock_transform spend half_life ! (t - 1)))
   \<and> adstock_decay half_life = (1 / 2) powr (1 / half_life)
   \<and> (0 < half_life \<and> 0 < N \<longrightarrow>
          adstock_transform (replicate N S) half_life ! (N - 1)
            = S * (1 - adstock_decay half_life ^ N) / (1 - adstock_decay half_life))
   \<and> (0 < half_life \<longrightarrow>
          (\<lambda>N. adstock_transform (replicate (Suc N) S) half_life ! N)
            \<longlonglongrightarrow> S / (1 - (1 / 2) powr (1 / half_life)))"
proof (intro conjI allI impI)
  show "length (feature_columns spend_matrix half_life) = length spend_matrix"
    by (simp add: feature_columns_def)
  show "length (adstock_transform spend half_life) = length spend"
    by (simp add: adstock_transform_def length_adstock_from)
  show "adstock_decay half_life = (1 / 2) powr (1 / half_life)"
    by (simp add: adstock_decay_def)
next
  fix j assume "j < length spend_matrix"
  then show "feature_columns spend_matrix half_life ! j
            = saturation_log (adstock_transform (spend_matrix ! j) half_life)"
    by (simp add: feature_columns_def)
next
  fix t assume "t < length spend"
  then show "adstock_transform spend half_life ! t
            = spend ! t + adstock_decay half_life
                * (if t = 0 then 0 else adstock_transform spend half_life ! (t - 1))"
    unfolding adstock_transform_def by (rule nth_adstock_from)
next
  assume a: "0 < half_life \<and> 0 < N"
  then have "N - 1 < N" by simp
  with a have "adstock_transform (replicate N S) half_life ! (N - 1)
      = S * (1 - adstock_decay half_life ^ Suc (N - 1)) / (1 - adstock_decay half_life)"
    by (intro adstock_constant_closed) simp_all
  with a show "adstock_transform (replicate N S) half_life ! (N - 1)
            = S * (1 - adstock_decay half_life ^ N) / (1 - adstock_decay half_life)"
    by simp
next
  assume "0 < half_life"
  then have "(\<lambda>N. adstock_transform (replicate (Suc N) S) half_life ! N)
           \<longlonglongrightarrow> S / (1 - adstock_decay half_life)"
    by (rule adstock_constant_limit)
  then show "(\<lambda>N. adstock_transform (replicate (Suc N) S) half_life ! N)
            \<longlonglongrightarrow> S / (1 - (1 / 2) powr (1 / half_life))"
    by (simp add: adstock_decay_def)
qed

text \<open>
  Half-life 1 gives decay 1/2: a constant spend of 100 is adstocked to 100, 150, 175 and
  converges to 200.
\<close>

theorem adstock_recurrence_and_limit_witness:
  "adstock_decay 1 = 1 / 2
   \<and> adstock_transform [100, 100, 100] 1 ! 1 = 100 + 1 / 2 * (adstock_transform [100, 100, 100] 1 ! 0)
   \<and> adstock_transform (replicate 3 100) 1 ! 2 = 175
   \<and> (\<lambda>N. adstock_transform (replicate (Suc N) 100) 1 ! N) \<longlonglongrightarrow> 200"
proof -
  have d: "adstock_decay 1 = 1 / 2"
    by (simp add: adstock_decay_def)
  from adstock_recurrence_and_limit [of "[]" 1 "[100, 100, 100]" 3 100]
  have r: "\<forall>t < length [100, 100, 100 :: real].
          adstock_transform [100, 100, 100] 1 ! t
            = [100, 100, 100] ! t + adstock_decay 1
                * (if t = 0 then 0 else adstock_transform [100, 100, 100] 1 ! (t - 1))"
    and c: "0 < (1::real) \<and> 0 < (3::nat) \<longrightarrow>
          adstock_transform (replicate 3 100) 1 ! (3 - 1)
            = 100 * (1 - adstock_decay 1 ^ 3) / (1 - adstock_decay 1)"
    and l: "0 < (1::real) \<longrightarrow>
          (\<lambda>N. adstock_transform (replicate (Suc N) 100) 1 ! N)
            \<longlonglongrightarrow> 100 / (1 - (1 / 2) powr (1 / 1))"
    by blast+
  from r have "adstock_transform [100, 100, 100] 1 ! 1
      = 100 + 1 / 2 * (adstock_transform [100, 100, 100] 1 ! 0)"
    by (simp add: d)
  moreover from c have "adstock_transform (replicate 3 100) 1 ! 2 = 175"
    by (simp add: d power3_eq_cube)
  moreover from l have "(\<lambda>N. adstock_transform (replicate (Suc N) 100) 1 ! N) \<longlonglongrightarrow> 200"
    by simp
  ultimately show ?thesis using d by blast
qed

lemma length_add_spend_at: "length (add_spend_at sd ed col r) = length col"
  by (simp add: add_spend_at_def split: option.splits)

lemma length_foldl_add_spend_at: "length (foldl (add_spend_at sd ed) col rows) = length col"
  by (induction rows arbitrary: col) (simp_all add: length_add_spend_at)

lemma length_spend_column: "length (spend_column s sd ed ch) = length (date_range sd ed)"
  by (simp add: spend_column_def Let_def length_foldl_add_spend_at split: option.splits)

lemma length_feature_column:
  "length (saturation_log (adstock_transform col hl)) = length col"
  by (simp add: saturation_log_def adstock_transform_def length_adstock_from)

lemma daily_spend_matrix_eq:
  "\<exists>rev_vec. daily_spend_matrix s sd ed chans
      = (date_range sd ed, map (spend_column s sd ed) chans, rev_vec)
     \<and> length rev_vec = length (date_range sd ed)"
  by (simp add: daily_spend_matrix_def Let_def)

lemma matrix_size_features:
  "matrix_size (feature_columns (map (spend_column s sd ed) chans) hl)
     = length chans * length (date_range sd ed)"
  by (induction chans)
     (simp_all add: matrix_size_def feature_columns_def length_feature_column length_spend_column)

lemma date_range_empty: "date_range sd ed = [] \<longleftrightarrow> ed < sd"
  by (simp add: date_range_def)

lemma foldl_add_mmm_row:
  "foldl add_mmm_row s rows = s\<lparr>mmm_results := mmm_results s @ rows\<rparr>"
  by (induction rows arbitrary: s) (simp_all add: add_mmm_row_def)

lemma run_mmm_no_channels:
  "run_mmm fit_pipeline MMM_VERSION now s run_id sd ed (Some []) hl ra nb mv = Inl ValueError"
  by (simp add: run_mmm_def daily_spend_matrix_def Let_def feature_columns_def hstack_def)

lemma run_mmm_degenerate:
  assumes "(case channel_list of None \<Rightarrow> DEFAULT_CHANNELS | Some cs \<Rightarrow> cs) = chans"
    and "chans \<noteq> []" and "ed < sd"
  shows "run_mmm fit_pipeline MMM_VERSION now s run_id sd ed channel_list hl ra nb mv =
     Inr (s\<lparr>mmm_results := mmm_results s @
               map (\<lambda>ch. \<lparr>mr_run_id = run_id, mr_created_at = now, mr_channel = ch,
                           mr_coefficient = 0, mr_goodness_of_fit_r2 = None,
                           mr_model_version = Some (version_or mv MMM_VERSION)\<rparr>) chans\<rparr>,
          [(''run_id'', PStr run_id),
           (''r2'', PNone),
           (''coefficients'', float_dict (zero_coefficients chans)),
           (''vif'', PDict []),
           (''elasticities'', PDict []),
           (''bootstrap_ci'', PDict []),
           (''stability_index'', PFloat 0),
           (''confidence_score'', PFloat 0)])"
proof -
  obtain rev_vec where m: "daily_spend_matrix s sd ed chans
      = (date_range sd ed, map (spend_column s sd ed) chans, rev_vec)"
    and l: "length rev_vec = length (date_range sd ed)"
    using daily_spend_matrix_eq by blast
  from assms(3) have "date_range sd ed = []" by (simp add: date_range_empty)
  with l have r: "rev_vec = []" by simp
  have h: "hstack (feature_columns (map (spend_column s sd ed) chans) hl)
      = Inr (feature_columns (map (spend_column s sd ed) chans) hl)"
    using assms(2) by (simp add: hstack_def feature_columns_def)
  show ?thesis
    unfolding run_mmm_def assms(1) Let_def m
    by (simp add: h r foldl_add_mmm_row)
qed

lemma run_mmm_fitted:
  assumes "(case channel_list of None \<Rightarrow> DEFAULT_CHANNELS | Some cs \<Rightarrow> cs) = chans"
    and "chans \<noteq> []" and "sd \<le> ed"
  shows "result_keys (run_mmm fit_pipeline MMM_VERSION now s run_id sd ed channel_list hl ra nb mv)
     = Inr [''run_id'', ''r2'', ''coefficients'', ''model_version'', ''adj_r2'', ''mape'', ''vif'',
            ''elasticities'', ''bootstrap_ci'', ''stability_index'', ''confidence_score'']"
proof -
  obtain rev_vec where m: "daily_spend_matrix s sd ed chans
      = (date_range sd ed, map (spend_column s sd ed) chans, rev_vec)"
    and l: "length rev_vec = length (date_range sd ed)"
    using daily_spend_matrix_eq by blast
  from assms(3) have ne: "date_range sd ed \<noteq> []" by (simp add: date_range_empty)
  with l have r: "rev_vec \<noteq> []" by auto
  have h: "hstack (feature_columns (map (spend_column s sd ed) chans) hl)
      = Inr (feature_columns (map (spend_column s sd ed) chans) hl)"
    using assms(2) by (simp add: hstack_def feature_columns_def)
  have z: "matrix_size (feature_columns (map (spend_column s sd ed) chans) hl) \<noteq> 0"
    using assms(2) ne by (simp add: matrix_size_features)
  show ?thesis
    unfolding run_mmm_def assms(1) Let_def m result_keys_def
    using z r by (simp add: h)
qed

lemma run_mmm_degenerate_keys:
  assumes "(case channel_list of None \<Rightarrow> DEFAULT_CHANNELS | Some cs \<Rightarrow> cs) = chans"
    and "chans \<noteq> []" and "ed < sd"
  shows "result_keys (run_mmm fit_pipeline MMM_VERSION now s run_id sd ed channel_list hl ra nb mv)
     = Inr COMMON_KEYS"
  by (simp add: run_mmm_degenerate[OF assms] result_keys_def COMMON_KEYS_def)

lemma run_mmm_no_channels_keys:
  assumes "(case channel_list of None \<Rightarrow> DEFAULT_CHANNELS | Some cs \<Rightarrow> cs) = []"
  shows "result_keys (run_mmm fit_pipeline MMM_VERSION now s run_id sd ed channel_list hl ra nb mv)
     = Inl ValueError"
  using assms
  by (simp add: run_mmm_def daily_spend_matrix_def Let_def feature_columns_def hstack_def
      result_keys_def)

text \<open>
  Claim C6, amended.  Whenever \<open>run_mmm\<close> returns a dictionary, it has the keys \<open>run_id\<close>,
  \<open>r2\<close>, \<open>coefficients\<close>, \<open>vif\<close>, \<open>elasticities\<close>, \<open>bootstrap_ci\<close>, \<open>stability_index\<close> and
  \<open>confidence_score\<close>, which are the keys its docstring lists.  The keys \<open>adj_r2\<close> and \<open>mape\<close>
  are present exactly when the model was fitted, that is when the date window is not empty; the
  dictionary of the degenerate case has the eight keys above and no other.
\<close>

theorem run_mmm_result_keys:
  assumes "result_keys (run_mmm fit_pipeline MMM_VERSION now s run_id start_date end_date
             channel_list adstock_half_life ridge_alpha n_boot mmm_version) = Inr ks"
  shows "set COMMON_KEYS \<subseteq> set ks
     \<and> (end_date < start_date \<longrightarrow> ks = COMMON_KEYS)
     \<and> (''adj_r2'' \<in> set ks \<longleftrightarrow> start_date \<le> end_date)
     \<and> (''mape'' \<in> set ks \<longleftrightarrow> start_date \<le> end_date)
     \<and> (set CLAIMED_KEYS \<subseteq> set ks \<longleftrightarrow> start_date \<le> end_date)"
proof -
  let ?chans = "case channel_list of None \<Rightarrow> DEFAULT_CHANNELS | Some cs \<Rightarrow> cs"
  have ne: "?chans \<noteq> []"
    using assms run_mmm_no_channels_keys[of channel_list] by auto
  show ?thesis
  proof (cases "end_date < start_date")
    case True
    from run_mmm_degenerate_keys[OF refl ne True] assms have "ks = COMMON_KEYS" by simp
    with True show ?thesis
      by (auto simp: COMMON_KEYS_def CLAIMED_KEYS_def)
  next
    case False
    then have le: "start_date \<le> end_date" by simp
    from run_mmm_fitted[OF refl ne le] assms
    have "ks = [''run_id'', ''r2'', ''coefficients'', ''model_version'', ''adj_r2'', ''mape'',
            ''vif'', ''elasticities'', ''bootstrap_ci'', ''stability_index'', ''confidence_score'']"
      by simp
    with le show ?thesis
      by (simp add: COMMON_KEYS_def CLAIMED_KEYS_def)
  qed
qed

text \<open>
  Claim C6, as stated, fails.  For the empty window from day 5 to day 4 the dictionary that
  \<open>run_mmm\<close> returns has neither \<open>adj_r2\<close> nor \<open>mape\<close>.
\<close>

theorem degenerate_result_lacks_keys_counterexample:
  "result_keys (run_mmm zero_fit ''mmm-v1'' 0 empty_session ''run-1'' 5 4 None 7 0 500 None)
     = Inr [''run_id'', ''r2'', ''coefficients'', ''vif'', ''elasticities'', ''bootstrap_ci'',
            ''stability_index'', ''confidence_score'']
   \<and> ''adj_r2'' \<notin> set [''run_id'', ''r2'', ''coefficients'', ''vif'', ''elasticities'',
                         ''bootstrap_ci'', ''stability_index'', ''confidence_score'']
   \<and> ''mape'' \<notin> set [''run_id'', ''r2'', ''coefficients'', ''vif'', ''elasticities'',
                         ''bootstrap_ci'', ''stability_index'', ''confidence_score'']"
proof -
  have c: "(case None of None \<Rightarrow> DEFAULT_CHANNELS | Some cs \<Rightarrow> cs) = DEFAULT_CHANNELS"
    by simp
  have n: "DEFAULT_CHANNELS \<noteq> []"
    by (simp add: DEFAULT_CHANNELS_def)
  have w: "(4::int) < 5" by simp
  from run_mmm_degenerate_keys[OF c n w, of zero_fit "''mmm-v1''" 0 empty_session "''run-1''" 7 0 500 None]
  show ?thesis
    by (simp add: COMMON_KEYS_def)
qed

text \<open>
  A fitted run over the days 1 to 3 returns all eleven keys, the run over the empty window
  returns the eight common ones.
\<close>

theorem run_mmm_result_keys_witness:
  "result_keys (run_mmm zero_fit ''mmm-v1'' 0 empty_session ''run-1'' 1 3 None 7 0 500 None)
     = Inr [''run_id'', ''r2'', ''coefficients'', ''model_version'', ''adj_r2'', ''mape'', ''vif'',
            ''elasticities'', ''bootstrap_ci'', ''stability_index'', ''confidence_score'']
   \<and> set COMMON_KEYS \<subseteq> set [''run_id'', ''r2'', ''coefficients'', ''model_version'', ''adj_r2'',
            ''mape'', ''vif'', ''elasticities'', ''bootstrap_ci'', ''stability_index'',
            ''confidence_score'']
   \<and> result_keys (run_mmm zero_fit ''mmm-v1'' 0 empty_session ''run-1'' 5 4 None 7 0 500 None)
     = Inr COMMON_KEYS"
proof -
  have c: "(case None of None \<Rightarrow> DEFAULT_CHANNELS | Some cs \<Rightarrow> cs) = DEFAULT_CHANNELS"
    by simp
  have n: "DEFAULT_CHANNELS \<noteq> []"
    by (simp add: DEFAULT_CHANNELS_def)
  have k: "result_keys (run_mmm zero_fit ''mmm-v1'' 0 empty_session ''run-1'' 1 3 None 7 0 500 None)
     = Inr [''run_id'', ''r2'', ''coefficients'', ''model_version'', ''adj_r2'', ''mape'', ''vif'',
            ''elasticities'', ''bootstrap_ci'', ''stability_index'', ''confidence_score'']"
    by (rule run_mmm_fitted[OF c n]) simp
  have d: "result_keys (run_mmm zero_fit ''mmm-v1'' 0 empty_session ''run-1'' 5 4 None 7 0 500 None)
     = Inr COMMON_KEYS"
    by (rule run_mmm_degenerate_keys[OF c n]) simp
  from run_mmm_result_keys [OF k] have "set COMMON_KEYS \<subseteq> set [''run_id'', ''r2'',
      ''coefficients'', ''model_version'', ''adj_r2'', ''mape'', ''vif'', ''elasticities'',
      ''bootstrap_ci'', ''stability_index'', ''confidence_score'']"
    by blast
  with k d show ?thesis by blast
qed

lemma map_of_zero_coefficients_foldl:
  "map_of (foldl (\<lambda>d ch. dict_set d ch 0) acc chans) ch
     = (if ch \<in> set chans then Some (0::real) else map_of acc ch)"
  by (induction chans arbitrary: acc) (auto simp: map_of_dict_set)

lemma map_of_zero_coefficients:
  "map_of (zero_coefficients chans) ch = (if ch \<in> set chans then Some 0 else None)"
  by (simp add: zero_coefficients_def map_of_zero_coefficients_foldl)

lemma empty_window_is_degenerate:
  assumes "(case channel_list of None \<Rightarrow> DEFAULT_CHANNELS | Some cs \<Rightarrow> cs) = chans"
    and "chans \<noteq> []" and "end_date < start_date"
  shows "\<exists>s' d. run_mmm fit_pipeline MMM_VERSION now s run_id start_date end_date channel_list
              adstock_half_life ridge_alpha n_boot mmm_version = Inr (s', d)
     \<and> map mr_channel (mmm_rows_written s s') = chans
     \<and> (\<forall>r \<in> set (mmm_rows_written s s').
            mr_run_id r = run_id \<and> mr_coefficient r = 0 \<and> mr_goodness_of_fit_r2 r = None)
     \<and> map_of d ''r2'' = Some PNone
     \<and> map_of d ''coefficients'' = Some (float_dict (zero_coefficients chans))
     \<and> (\<forall>ch \<in> set chans. map_of (zero_coefficients chans) ch = Some 0)"
proof -
  let ?rows = "map (\<lambda>ch. \<lparr>mr_run_id = run_id, mr_created_at = now, mr_channel = ch,
                           mr_coefficient = 0, mr_goodness_of_fit_r2 = None,
                           mr_model_version = Some (version_or mmm_version MMM_VERSION)\<rparr>) chans"
  let ?s' = "s\<lparr>mmm_results := mmm_results s @ ?rows\<rparr>"
  let ?d = "[(''run_id'', PStr run_id), (''r2'', PNone),
           (''coefficients'', float_dict (zero_coefficients chans)),
           (''vif'', PDict []), (''elasticities'', PDict []), (''bootstrap_ci'', PDict []),
           (''stability_index'', PFloat 0), (''confidence_score'', PFloat 0)]"
  have r: "run_mmm fit_pipeline MMM_VERSION now s run_id start_date end_date channel_list
              adstock_half_life ridge_alpha n_boot mmm_version = Inr (?s', ?d)"
    by (rule run_mmm_degenerate[OF assms])
  have w: "mmm_rows_written s ?s' = ?rows"
    by (simp add: mmm_rows_written_def)
  have 1: "map mr_channel (mmm_rows_written s ?s') = chans"
    unfolding w by (simp add: comp_def)
  have 2: "\<forall>r \<in> set (mmm_rows_written s ?s').
            mr_run_id r = run_id \<and> mr_coefficient r = 0 \<and> mr_goodness_of_fit_r2 r = None"
    unfolding w by auto
  have 3: "map_of ?d ''r2'' = Some PNone"
    and 4: "map_of ?d ''coefficients'' = Some (float_dict (zero_coefficients chans))"
    by simp_all
  have 5: "\<forall>ch \<in> set chans. map_of (zero_coefficients chans) ch = Some 0"
    by (simp add: map_of_zero_coefficients)
  from r 1 2 3 4 5 show ?thesis by blast
qed

text \<open>
  With at least one channel the feature matrix is empty exactly when the date range is, that is
  exactly when the revenue vector is: the test \<open>X.size == 0\<close> of the guard can only decide
  for an empty channel list.
\<close>

lemma size_guard_decides_only_without_channels:
  assumes "chans \<noteq> []"
  shows "matrix_size (feature_columns (map (spend_column s start_date end_date) chans) half_life) = 0
           \<longleftrightarrow> length (date_range start_date end_date) = 0"
  using assms by (simp add: matrix_size_features)

text \<open>
  Claim C5, at the input where the code departs from it.  With an empty channel list the loop
  over the columns builds no array, \<open>np.hstack\<close> raises \<open>ValueError\<close>, and the guard for the
  degenerate case is never reached: nothing is written and nothing is returned.  (For an empty
  date window and a non-empty channel list the degenerate case is as the claim says, see
  \<open>empty_window_is_degenerate\<close>.)
\<close>

theorem run_mmm_empty_channel_list_raises:
  "run_mmm fit_pipeline MMM_VERSION now s run_id start_date end_date (Some [])
       adstock_half_life ridge_alpha n_boot mmm_version = Inl ValueError"
  by (rule run_mmm_no_channels)

text \<open>
  The call with \<open>channels=[]\<close> over the days 1 to 3 of the empty store.
\<close>

theorem run_mmm_empty_channel_list_raises_witness:
  "run_mmm zero_fit ''mmm-v1'' 0 empty_session ''run-1'' 1 3 (Some []) 7 0 500 None
     = Inl ValueError"
  by (rule run_mmm_empty_channel_list_raises)

end
